theory Spec2Isabelle
  imports Main "HOL-Library.AList"
begin

section \<open>hidkitd: a daemon running scripts on HID device events\<close>

text \<open>
  A shallow embedding of \<^verbatim>\<open>hidkitd.c\<close>. C strings are \<open>string\<close>s (the bytes before the
  terminating NUL), a nullable \<^verbatim>\<open>const char *\<close> is a \<open>string option\<close>, a \<^verbatim>\<open>long\<close> is an
  \<open>int\<close> kept within \<open>LONG_MIN .. LONG_MAX\<close> by \<open>strtol\<close>. Everything the program does
  to the outside (what it writes itself to standard output and error, \<^verbatim>\<open>system\<close>, the
  IOKit and CoreFoundation calls) is an event appended to the trace of an explicit
  world, and so is what the processes it starts write; what the outside answers is read
  from an environment of oracles that see the trace so far.
\<close>

subsection \<open>The configuration\<close>

record AppConfig =
  vendorID :: int
  productID :: int
  usagePage :: int
  usage :: int
  productName :: "string option"
  deviceAddress :: "string option"
  onConnectScript :: "string option"
  onDisconnectScript :: "string option"

text \<open>\<^verbatim>\<open>AppConfig config = {0};\<close>\<close>

definition zero_config :: AppConfig where
  "zero_config =
     \<lparr>vendorID = 0, productID = 0, usagePage = 0, usage = 0,
      productName = None, deviceAddress = None,
      onConnectScript = None, onDisconnectScript = None\<rparr>"

subsection \<open>The world outside the process\<close>

type_synonym io_service = nat
type_synonym io_iterator = "io_service list"
type_synonym kern_return = int
type_synonym CFDictionaryRef = nat

datatype CFValue = CFNumber int | CFString string

type_synonym dictionary = "(string \<times> CFValue) list"

datatype notification_kind = kIOMatchedNotification | kIOTerminatedNotification

datatype callback = DeviceConnected | DeviceDisconnected

text \<open>
  The events. \<open>Stdout\<close> and \<open>Stderr\<close> are the lines the daemon writes itself,
  \<open>ChildOutput\<close> is a line that the shell or a script writes to the streams it inherits,
  and the others are the calls of the same names.
\<close>

datatype event =
    Stdout string
  | Stderr string
  | System string
  | ChildOutput string
  | ObjectRelease io_service
  | ServiceMatching string "CFDictionaryRef option"
  | NotificationPortCreate
  | RunLoopAddSource
  | AddMatchingNotification notification_kind "dictionary option" kern_return io_iterator

record world =
  trace :: "event list"
  dicts :: "CFDictionaryRef \<Rightarrow> dictionary option"
  next_ref :: CFDictionaryRef
  subscriptions :: "(notification_kind \<times> callback \<times> AppConfig) list"

text \<open>
  The oracles. \<open>system_status\<close> is the value \<^verbatim>\<open>system\<close> returns for a command and
  \<open>child_output\<close> is what the shell and the script it starts write meanwhile to the
  standard output and error they inherit from the daemon,
  \<open>matching_ok\<close> tells whether \<^verbatim>\<open>IOServiceMatching\<close> can build its dictionary,
  \<open>add_notification\<close> is the result of registering a subscription together with what
  iterating the \<^verbatim>\<open>io_iterator_t\<close> variable then yields (on success, the objects that
  match already), and \<open>uninitialized\<close> is what iterating that variable yields when the
  call was given no dictionary and left it unwritten.
\<close>

record env =
  system_status :: "event list \<Rightarrow> string \<Rightarrow> int"
  child_output :: "event list \<Rightarrow> string \<Rightarrow> string list"
  matching_ok :: "event list \<Rightarrow> bool"
  add_notification :: "event list \<Rightarrow> notification_kind \<Rightarrow> dictionary \<Rightarrow> kern_return \<times> io_iterator"
  uninitialized :: "event list \<Rightarrow> io_iterator"

definition emit :: "event \<Rightarrow> world \<Rightarrow> world" where
  "emit e w = w\<lparr>trace := trace w @ [e]\<rparr>"

definition printf :: "string \<Rightarrow> world \<Rightarrow> world" where
  "printf s w = emit (Stdout s) w"

definition fprintf_stderr :: "string \<Rightarrow> world \<Rightarrow> world" where
  "fprintf_stderr s w = emit (Stderr s) w"

text \<open>
  \<^verbatim>\<open>system\<close> hands the command to the shell and waits for it: the launch, then whatever
  the child processes write, then the status.
\<close>

definition system :: "env \<Rightarrow> string \<Rightarrow> world \<Rightarrow> int \<times> world" where
  "system e command w =
     (system_status e (trace w) command,
      fold (\<lambda>line. emit (ChildOutput line)) (child_output e (trace w) command)
        (emit (System command) w))"

definition IOObjectRelease :: "io_service \<Rightarrow> world \<Rightarrow> world" where
  "IOObjectRelease service w = emit (ObjectRelease service) w"

text \<open>
  An iterator is the list of the objects it still holds; \<^verbatim>\<open>IOIteratorNext\<close> returns the
  next one, or 0 (\<^verbatim>\<open>IO_OBJECT_NULL\<close>) when none is left.
\<close>

definition IOIteratorNext :: "io_iterator \<Rightarrow> io_service \<times> io_iterator" where
  "IOIteratorNext iterator = (case iterator of [] \<Rightarrow> (0, []) | s # rest \<Rightarrow> (s, rest))"

subsection \<open>The action runner\<close>

text \<open>
  \<^verbatim>\<open>snprintf(command, size, "\"%s\"", scriptPath)\<close>: the formatted text is the path
  between two double quotes, of which at most \<open>size - 1\<close> bytes are stored.
\<close>

definition snprintf_quoted :: "nat \<Rightarrow> string \<Rightarrow> string" where
  "snprintf_quoted n s = take (n - 1) ([CHR 0x22] @ s @ [CHR 0x22])"

definition run_script :: "env \<Rightarrow> string option \<Rightarrow> world \<Rightarrow> world" where
  "run_script e scriptPath w =
     (case scriptPath of
        None \<Rightarrow> w
      | Some path \<Rightarrow>
          (let command = snprintf_quoted 2048 path;
               w1 = printf (''DAEMON: Executing command: '' @ command @ ''\<newline>'') w;
               (status, w2) = system e command w1
           in w2))"

subsection \<open>The dispatcher callbacks\<close>

function deviceConnected :: "env \<Rightarrow> AppConfig \<Rightarrow> io_iterator \<Rightarrow> world \<Rightarrow> world" where
  "deviceConnected e config iterator w =
     (case IOIteratorNext iterator of
        (service, iterator') \<Rightarrow>
          if service \<noteq> 0 then
            deviceConnected e config iterator'
              (IOObjectRelease service
                (run_script e (onConnectScript config)
                  (printf ''DAEMON: Received connect (matched) event.\<newline>'' w)))
          else w)"
  by pat_completeness auto
termination
  by (relation "measure (\<lambda>(e, config, iterator, w). length iterator)")
     (auto simp: IOIteratorNext_def split: list.splits)

function deviceDisconnected :: "env \<Rightarrow> AppConfig \<Rightarrow> io_iterator \<Rightarrow> world \<Rightarrow> world" where
  "deviceDisconnected e config iterator w =
     (case IOIteratorNext iterator of
        (service, iterator') \<Rightarrow>
          if service \<noteq> 0 then
            deviceDisconnected e config iterator'
              (IOObjectRelease service
                (run_script e (onDisconnectScript config)
                  (printf ''DAEMON: Received disconnect (terminated) event.\<newline>'' w)))
          else w)"
  by pat_completeness auto
termination
  by (relation "measure (\<lambda>(e, config, iterator, w). length iterator)")
     (auto simp: IOIteratorNext_def split: list.splits)

declare deviceConnected.simps [simp del]
declare deviceDisconnected.simps [simp del]

subsection \<open>The matcher compiler\<close>

text \<open>
  CoreFoundation dictionaries are mutable objects: the store \<open>dicts\<close> maps a reference
  to the entries of the dictionary it denotes, and \<^verbatim>\<open>IOServiceMatching\<close> allocates a
  new one holding the class name under \<^verbatim>\<open>IOProviderClass\<close>, or fails and returns NULL.
  The numbers and strings stored as values are immutable, so they are values here, and
  \<^verbatim>\<open>CFNumberCreate\<close> and \<^verbatim>\<open>CFStringCreateWithCString\<close> are taken to succeed.
\<close>

definition IOServiceMatching :: "env \<Rightarrow> string \<Rightarrow> world \<Rightarrow> CFDictionaryRef option \<times> world" where
  "IOServiceMatching e name w =
     (if matching_ok e (trace w) then
        (let r = next_ref w
         in (Some r,
             emit (ServiceMatching name (Some r))
               (w\<lparr>dicts := (dicts w)(r \<mapsto> [(''IOProviderClass'', CFString name)]),
                  next_ref := r + 1\<rparr>)))
      else (None, emit (ServiceMatching name None) w))"

text \<open>
  \<^verbatim>\<open>CFDictionarySetValue\<close> replaces the value of a key that is there and adds the key
  otherwise.
\<close>

definition CFDictionarySetValue :: "CFDictionaryRef \<Rightarrow> string \<Rightarrow> CFValue \<Rightarrow> world \<Rightarrow> world" where
  "CFDictionarySetValue dict key v w =
     w\<lparr>dicts := (dicts w)(dict := map_option (AList.update key v) (dicts w dict))\<rparr>"

definition createMatchingDictionary :: "env \<Rightarrow> AppConfig \<Rightarrow> world \<Rightarrow> CFDictionaryRef option \<times> world" where
  "createMatchingDictionary e config w =
     (case IOServiceMatching e ''IOHIDUserDevice'' w of
        (None, w0) \<Rightarrow> (None, fprintf_stderr ''DAEMON_ERROR: IOServiceMatching failed.\<newline>'' w0)
      | (Some dict, w0) \<Rightarrow>
          (let w1 = (if vendorID config > 0
                     then CFDictionarySetValue dict ''VendorID'' (CFNumber (vendorID config)) w0
                     else w0);
               w2 = (if productID config > 0
                     then CFDictionarySetValue dict ''ProductID'' (CFNumber (productID config)) w1
                     else w1);
               w3 = (if usagePage config > 0
                     then CFDictionarySetValue dict ''PrimaryUsagePage'' (CFNumber (usagePage config)) w2
                     else w2);
               w4 = (if usage config > 0
                     then CFDictionarySetValue dict ''PrimaryUsage'' (CFNumber (usage config)) w3
                     else w3);
               w5 = (case productName config of
                       Some name \<Rightarrow> CFDictionarySetValue dict ''Product'' (CFString name) w4
                     | None \<Rightarrow> w4);
               w6 = (case deviceAddress config of
                       Some address \<Rightarrow> CFDictionarySetValue dict ''DeviceAddress'' (CFString address) w5
                     | None \<Rightarrow> w5)
           in (Some dict, w6)))"

subsection \<open>Registering a subscription\<close>

definition KERN_SUCCESS :: kern_return where
  "KERN_SUCCESS = 0"

definition kIOReturnBadArgument :: kern_return where
  "kIOReturnBadArgument = - 536870206"

text \<open>
  \<^verbatim>\<open>IOServiceAddMatchingNotification\<close> always consumes one reference to the dictionary
  it is given (here the only one, so the object is gone afterwards), refuses a NULL
  dictionary, and otherwise answers what the environment decides. A registration that
  succeeded binds the callback and its \<^verbatim>\<open>refCon\<close> to the notification kind.
\<close>

definition IOServiceAddMatchingNotification ::
  "env \<Rightarrow> notification_kind \<Rightarrow> CFDictionaryRef option \<Rightarrow> callback \<Rightarrow> AppConfig \<Rightarrow> world
     \<Rightarrow> (kern_return \<times> io_iterator) \<times> world" where
  "IOServiceAddMatchingNotification e kind matching cb refCon w =
     (let entries = (case matching of None \<Rightarrow> None | Some r \<Rightarrow> dicts w r);
          (kr, iterator) =
             (case entries of
                None \<Rightarrow> (kIOReturnBadArgument, uninitialized e (trace w))
              | Some d \<Rightarrow> add_notification e (trace w) kind d);
          w1 = (case matching of None \<Rightarrow> w | Some r \<Rightarrow> w\<lparr>dicts := (dicts w)(r := None)\<rparr>);
          w2 = (if kr = KERN_SUCCESS
                then w1\<lparr>subscriptions := subscriptions w1 @ [(kind, cb, refCon)]\<rparr>
                else w1)
      in ((kr, iterator), emit (AddMatchingNotification kind entries kr iterator) w2))"

subsection \<open>Reading the command line\<close>

text \<open>
  \<^verbatim>\<open>strtol(val, NULL, 10)\<close>: white space is skipped, then an optional sign, then the
  longest run of decimal digits is read (none gives 0); a value outside of \<^verbatim>\<open>long\<close>
  is replaced by \<^verbatim>\<open>LONG_MAX\<close> or \<^verbatim>\<open>LONG_MIN\<close>.
\<close>

definition LONG_MAX :: int where
  "LONG_MAX = 2 ^ 63 - 1"

definition LONG_MIN :: int where
  "LONG_MIN = - (2 ^ 63)"

definition isspace :: "char \<Rightarrow> bool" where
  "isspace c = (c \<in> set [CHR '' '', CHR 0x09, CHR 0x0A, CHR 0x0B, CHR 0x0C, CHR 0x0D])"

definition isdigit :: "char \<Rightarrow> bool" where
  "isdigit c = (48 \<le> (of_char c :: nat) \<and> (of_char c :: nat) \<le> 57)"

fun digits_value :: "int \<Rightarrow> string \<Rightarrow> int" where
  "digits_value acc [] = acc"
| "digits_value acc (c # cs) =
     (if isdigit c then digits_value (10 * acc + (of_char c - 48)) cs else acc)"

definition strtol :: "string \<Rightarrow> int" where
  "strtol s =
     (case dropWhile isspace s of
        [] \<Rightarrow> 0
      | c # cs \<Rightarrow>
          if c = CHR ''-'' then max LONG_MIN (- digits_value 0 cs)
          else if c = CHR ''+'' then min LONG_MAX (digits_value 0 cs)
          else min LONG_MAX (digits_value 0 (c # cs)))"

text \<open>
  The loop \<^verbatim>\<open>for (i = 1; i < argc; i += 2)\<close> of \<^verbatim>\<open>main\<close>, as a recursion on the
  arguments from \<^verbatim>\<open>argv[i]\<close> on. The result \<open>None\<close> is the \<^verbatim>\<open>return 1\<close> of the loop.
\<close>

fun parse_args :: "string list \<Rightarrow> AppConfig \<Rightarrow> world \<Rightarrow> AppConfig option \<times> world" where
  "parse_args [] config w = (Some config, w)"
| "parse_args [flag] config w =
     (None, fprintf_stderr (''Error: Flag '' @ flag @ '' is missing a value. Use --help.\<newline>'') w)"
| "parse_args (flag # val # rest) config w =
     (if flag = ''--vendor-id'' then parse_args rest (config\<lparr>vendorID := strtol val\<rparr>) w
      else if flag = ''--product-id'' then parse_args rest (config\<lparr>productID := strtol val\<rparr>) w
      else if flag = ''--usage-page'' then parse_args rest (config\<lparr>usagePage := strtol val\<rparr>) w
      else if flag = ''--usage'' then parse_args rest (config\<lparr>usage := strtol val\<rparr>) w
      else if flag = ''--name'' then parse_args rest (config\<lparr>productName := Some val\<rparr>) w
      else if flag = ''--address'' then parse_args rest (config\<lparr>deviceAddress := Some val\<rparr>) w
      else if flag = ''--on-connect'' then parse_args rest (config\<lparr>onConnectScript := Some val\<rparr>) w
      else if flag = ''--on-disconnect'' then parse_args rest (config\<lparr>onDisconnectScript := Some val\<rparr>) w
      else (None, fprintf_stderr (''Error: Unknown flag '' @ flag @ ''. Use --help.\<newline>'') w))"

subsection \<open>The help text\<close>

definition help_text :: "string \<Rightarrow> string list" where
  "help_text prog_name =
     [''hidkitd: A persistent daemon to run scripts on device events.\<newline>'',
      ''NOTE: This tool is specifically designed to monitor `IOHIDUserDevice` objects,\<newline>'',
      ''      such as keyboards, mice, game controllers, and other custom HID hardware.\<newline>\<newline>'',
      ''Usage: '' @ prog_name @ '' [FILTERS] [ACTIONS]\<newline>\<newline>'',
      ''FILTERS (at least one is required, multiple are combined with AND logic):\<newline>'',
      ''  --vendor-id <id>       Match by USB Vendor ID (number).\<newline>'',
      ''  --product-id <id>      Match by USB Product ID (number).\<newline>'',
      ''  --name <string>        Match by Product Name (string).\<newline>'',
      ''  --address <mac_string> Match by Bluetooth Device Address (string).\<newline>'',
      ''  --usage-page <id>      Match by HID Primary Usage Page (number).\<newline>'',
      ''  --usage <id>           Match by HID Primary Usage (number).\<newline>\<newline>'',
      ''ACTIONS (at least one is required):\<newline>'',
      ''  --on-connect <path>    Script to run when the device connects.\<newline>'',
      ''  --on-disconnect <path> Script to run when the device disconnects.\<newline>\<newline>'',
      ''HELP:\<newline>'',
      ''  --help                 Display this help message and exit.\<newline>\<newline>'',
      ''HOW TO FIND FILTER VALUES:\<newline>'',
      ''  1. Connect your device.\<newline>'',
      ''  2. Open the Terminal application.\<newline>'',
      ''  3. Run the command: `ioreg -r -c IOHIDDevice`\<newline>'',
      ''  4. Search the output for your device's name (e.g., 'Logitech Mouse'). You will\<newline>'',
      ''     see a block of properties for it. Look for the following keys to use as filters:\<newline>'',
      ''     - '' @ [CHR 0x22] @ ''ProductID'' @ [CHR 0x22] @ '' = 1234\<newline>'',
      ''     - '' @ [CHR 0x22] @ ''VendorID'' @ [CHR 0x22] @ '' = 5678\<newline>'',
      ''     - '' @ [CHR 0x22] @ ''Product'' @ [CHR 0x22] @ '' = '' @ [CHR 0x22] @ ''My Cool Keyboard'' @ [CHR 0x22] @ ''\<newline>'',
      ''     - '' @ [CHR 0x22] @ ''DeviceAddress'' @ [CHR 0x22] @ '' = '' @ [CHR 0x22] @ ''ab-cd-ef-12-34-56'' @ [CHR 0x22] @ ''\<newline>'',
      ''     - '' @ [CHR 0x22] @ ''PrimaryUsagePage'' @ [CHR 0x22] @ '' = 1\<newline>'',
      ''     - '' @ [CHR 0x22] @ ''PrimaryUsage'' @ [CHR 0x22] @ '' = 6\<newline>\<newline>'',
      ''EXAMPLE (for a standard keyboard to avoid multiple triggers from media keys):\<newline>'',
      ''  '' @ prog_name @ '' '' @ [CHR 0x5C] @ ''\<newline>'',
      ''    --name '' @ [CHR 0x22] @ ''My Custom Keyboard'' @ [CHR 0x22] @ '' '' @ [CHR 0x5C] @ ''\<newline>'',
      ''    --usage-page 1 --usage 6 '' @ [CHR 0x5C] @ ''\<newline>'',
      ''    --on-connect /path/to/connect_script.sh '' @ [CHR 0x5C] @ ''\<newline>'',
      ''    --on-disconnect /path/to/disconnect_script.sh\<newline>\<newline>'']"

text \<open>\<^verbatim>\<open>print_help\<close> writes the lines of the help text to standard output, one \<^verbatim>\<open>printf\<close> each.\<close>

definition print_help :: "string \<Rightarrow> world \<Rightarrow> world" where
  "print_help prog_name w = fold printf (help_text prog_name) w"

subsection \<open>The entry point\<close>

text \<open>
  \<^verbatim>\<open>main\<close> either returns an exit status or reaches \<^verbatim>\<open>CFRunLoopRun\<close>, which does not
  return: the outcome \<open>Monitoring\<close>, with the world as it is when the loop is entered.
\<close>

datatype outcome = Exit int | Monitoring

text \<open>The statements of \<^verbatim>\<open>main\<close> after the two validations, up to \<^verbatim>\<open>CFRunLoopRun\<close>.\<close>

definition start_monitoring :: "env \<Rightarrow> AppConfig \<Rightarrow> world \<Rightarrow> outcome \<times> world" where
  "start_monitoring e config w =
     (let w1 = printf ''DAEMON: Starting up...\<newline>'' w;
          w2 = emit RunLoopAddSource (emit NotificationPortCreate w1);
          (matchDict, w3) = createMatchingDictionary e config w2;
          ((kr1, matchedIterator), w4) =
             IOServiceAddMatchingNotification e kIOMatchedNotification matchDict
               DeviceConnected config w3;
          w5 = deviceConnected e config matchedIterator w4;
          (termDict, w6) = createMatchingDictionary e config w5;
          ((kr2, terminatedIterator), w7) =
             IOServiceAddMatchingNotification e kIOTerminatedNotification termDict
               DeviceDisconnected config w6;
          w8 = deviceDisconnected e config terminatedIterator w7;
          w9 = printf ''DAEMON: Monitoring started.\<newline>'' w8
      in (Monitoring, w9))"

definition main :: "env \<Rightarrow> string list \<Rightarrow> world \<Rightarrow> outcome \<times> world" where
  "main e argv w =
     (let argc = length argv
      in if argc = 1 \<or> (argc = 2 \<and> argv ! 1 = ''--help'')
         then (Exit 0, print_help (argv ! 0) w)
         else
           (case parse_args (drop 1 argv) zero_config w of
              (None, w1) \<Rightarrow> (Exit 1, w1)
            | (Some config, w1) \<Rightarrow>
                if vendorID config = 0 \<and> productID config = 0 \<and> productName config = None
                   \<and> deviceAddress config = None \<and> usagePage config = 0 \<and> usage config = 0
                then (Exit 1,
                      fprintf_stderr
                        ''Error: You must provide at least one filter. Use --help.\<newline>'' w1)
                else if onConnectScript config = None \<and> onDisconnectScript config = None
                then (Exit 1,
                      fprintf_stderr
                        ''Error: You must provide at least one action script. Use --help.\<newline>'' w1)
                else start_monitoring e config w1))"

subsection \<open>The run loop\<close>

text \<open>
  \<^verbatim>\<open>CFRunLoopRun\<close> hands each notification of the port to the callback registered for
  its kind, with the \<^verbatim>\<open>refCon\<close> given at registration and an iterator over the batch.
  It runs forever; the model runs it over a finite prefix of the notifications.
\<close>

definition invoke :: "env \<Rightarrow> callback \<Rightarrow> AppConfig \<Rightarrow> io_iterator \<Rightarrow> world \<Rightarrow> world" where
  "invoke e cb refCon iterator w =
     (case cb of
        DeviceConnected \<Rightarrow> deviceConnected e refCon iterator w
      | DeviceDisconnected \<Rightarrow> deviceDisconnected e refCon iterator w)"

definition deliver :: "env \<Rightarrow> notification_kind \<times> io_iterator \<Rightarrow> world \<Rightarrow> world" where
  "deliver e n w =
     (case List.find (\<lambda>(kind, cb, refCon). kind = fst n) (subscriptions w) of
        None \<Rightarrow> w
      | Some (kind, cb, refCon) \<Rightarrow> invoke e cb refCon (snd n) w)"

fun CFRunLoopRun :: "env \<Rightarrow> (notification_kind \<times> io_iterator) list \<Rightarrow> world \<Rightarrow> world" where
  "CFRunLoopRun e [] w = w"
| "CFRunLoopRun e (n # ns) w = CFRunLoopRun e ns (deliver e n w)"

subsection \<open>Observations on a trace\<close>

definition released :: "event list \<Rightarrow> io_service list" where
  "released t = [s. ObjectRelease s \<leftarrow> t]"

definition launched :: "event list \<Rightarrow> string list" where
  "launched t = [c. System c \<leftarrow> t]"

definition stdout_of :: "event list \<Rightarrow> string list" where
  "stdout_of t = [s. Stdout s \<leftarrow> t]"

definition stderr_of :: "event list \<Rightarrow> string list" where
  "stderr_of t = [s. Stderr s \<leftarrow> t]"

definition is_action :: "event \<Rightarrow> bool" where
  "is_action ev =
     (case ev of
        System c \<Rightarrow> True
      | ObjectRelease s \<Rightarrow> True
      | AddMatchingNotification k d kr it \<Rightarrow> True
      | _ \<Rightarrow> False)"

text \<open>The registrations, launches and releases of a trace, in the order they happened.\<close>

definition actions :: "event list \<Rightarrow> event list" where
  "actions t = filter is_action t"

text \<open>The objects a loop \<^verbatim>\<open>while ((service = IOIteratorNext(iterator)))\<close> gets to see.\<close>

definition yielded :: "io_iterator \<Rightarrow> io_service list" where
  "yielded iterator = takeWhile (\<lambda>service. service \<noteq> 0) iterator"

text \<open>What handling one device amounts to: the launch, if a script is configured, and the release.\<close>

definition handled :: "string option \<Rightarrow> io_service \<Rightarrow> event list" where
  "handled script service =
     (case script of None \<Rightarrow> [] | Some path \<Rightarrow> [System (snprintf_quoted 2048 path)])
     @ [ObjectRelease service]"

subsection \<open>The specification's view of a query\<close>

text \<open>
  The constraints the specification asks of a compiled query: one per present field,
  a numeric field being present when positive and a string field when not NULL.
\<close>

definition spec_constraints :: "AppConfig \<Rightarrow> dictionary" where
  "spec_constraints config =
     (if vendorID config > 0 then [(''VendorID'', CFNumber (vendorID config))] else [])
     @ (if productID config > 0 then [(''ProductID'', CFNumber (productID config))] else [])
     @ (if usagePage config > 0 then [(''PrimaryUsagePage'', CFNumber (usagePage config))] else [])
     @ (if usage config > 0 then [(''PrimaryUsage'', CFNumber (usage config))] else [])
     @ (case productName config of Some name \<Rightarrow> [(''Product'', CFString name)] | None \<Rightarrow> [])
     @ (case deviceAddress config of Some a \<Rightarrow> [(''DeviceAddress'', CFString a)] | None \<Rightarrow> [])"

definition spec_query :: "AppConfig \<Rightarrow> dictionary" where
  "spec_query config = (''IOProviderClass'', CFString ''IOHIDUserDevice'') # spec_constraints config"

text \<open>
  Matching a device against a query is done by the notification service, not by this
  program. It is taken here as the specification describes it, the logical AND of the
  entries: every entry of the query has to be a property of the device, with the same
  value.
\<close>

definition device_matches :: "dictionary \<Rightarrow> (string \<Rightarrow> CFValue option) \<Rightarrow> bool" where
  "device_matches query properties = list_all (\<lambda>(key, v). properties key = Some v) query"

text \<open>\<open>config'\<close> has every present field of \<open>config\<close>, and possibly more.\<close>

definition adds_fields :: "AppConfig \<Rightarrow> AppConfig \<Rightarrow> bool" where
  "adds_fields config config' =
     ((vendorID config > 0 \<longrightarrow> vendorID config' = vendorID config)
      \<and> (productID config > 0 \<longrightarrow> productID config' = productID config)
      \<and> (usagePage config > 0 \<longrightarrow> usagePage config' = usagePage config)
      \<and> (usage config > 0 \<longrightarrow> usage config' = usage config)
      \<and> (productName config \<noteq> None \<longrightarrow> productName config' = productName config)
      \<and> (deviceAddress config \<noteq> None \<longrightarrow> deviceAddress config' = deviceAddress config))"

subsection \<open>The specification's view of a command line\<close>

fun flags_of :: "string list \<Rightarrow> string list" where
  "flags_of (flag # val # rest) = flag # flags_of rest"
| "flags_of [flag] = [flag]"
| "flags_of [] = []"

text \<open>The value that follows the last occurrence of a flag, the arguments read in pairs.\<close>

fun last_value :: "string \<Rightarrow> string list \<Rightarrow> string option" where
  "last_value flag (f # v # rest) =
     (case last_value flag rest of
        Some v' \<Rightarrow> Some v'
      | None \<Rightarrow> if f = flag then Some v else None)"
| "last_value flag [f] = None"
| "last_value flag [] = None"

definition last_number :: "string \<Rightarrow> string list \<Rightarrow> int" where
  "last_number flag args = (case last_value flag args of None \<Rightarrow> 0 | Some v \<Rightarrow> strtol v)"

definition config_of_last :: "string list \<Rightarrow> AppConfig" where
  "config_of_last args =
     \<lparr>vendorID = last_number ''--vendor-id'' args,
      productID = last_number ''--product-id'' args,
      usagePage = last_number ''--usage-page'' args,
      usage = last_number ''--usage'' args,
      productName = last_value ''--name'' args,
      deviceAddress = last_value ''--address'' args,
      onConnectScript = last_value ''--on-connect'' args,
      onDisconnectScript = last_value ''--on-disconnect'' args\<rparr>"

definition filter_flags :: "string list" where
  "filter_flags =
     [''--vendor-id'', ''--product-id'', ''--usage-page'', ''--usage'', ''--name'', ''--address'']"

definition action_flags :: "string list" where
  "action_flags = [''--on-connect'', ''--on-disconnect'']"

definition well_formed :: "string list \<Rightarrow> bool" where
  "well_formed args =
     (even (length args) \<and> list_all (\<lambda>f. f \<in> set (filter_flags @ action_flags)) (flags_of args))"

definition no_filter_given :: "string list \<Rightarrow> bool" where
  "no_filter_given args = list_all (\<lambda>f. f \<notin> set filter_flags) (flags_of args)"

definition no_action_given :: "string list \<Rightarrow> bool" where
  "no_action_given args = list_all (\<lambda>f. f \<notin> set action_flags) (flags_of args)"

text \<open>
  The test of \<^verbatim>\<open>main\<close> for a command line without filter: every numeric field is 0 and
  both strings are NULL.
\<close>

definition all_empty :: "AppConfig \<Rightarrow> bool" where
  "all_empty config =
     (vendorID config = 0 \<and> productID config = 0 \<and> usagePage config = 0 \<and> usage config = 0
      \<and> productName config = None \<and> deviceAddress config = None)"

definition help_request :: "string list \<Rightarrow> bool" where
  "help_request argv = (length argv = 1 \<or> (length argv = 2 \<and> argv ! 1 = ''--help''))"

text \<open>What one flag with its value does to the configuration; \<open>None\<close> for an unknown flag.\<close>

definition assign :: "string \<Rightarrow> string \<Rightarrow> AppConfig \<Rightarrow> AppConfig option" where
  "assign flag val config =
     (if flag = ''--vendor-id'' then Some (config\<lparr>vendorID := strtol val\<rparr>)
      else if flag = ''--product-id'' then Some (config\<lparr>productID := strtol val\<rparr>)
      else if flag = ''--usage-page'' then Some (config\<lparr>usagePage := strtol val\<rparr>)
      else if flag = ''--usage'' then Some (config\<lparr>usage := strtol val\<rparr>)
      else if flag = ''--name'' then Some (config\<lparr>productName := Some val\<rparr>)
      else if flag = ''--address'' then Some (config\<lparr>deviceAddress := Some val\<rparr>)
      else if flag = ''--on-connect'' then Some (config\<lparr>onConnectScript := Some val\<rparr>)
      else if flag = ''--on-disconnect'' then Some (config\<lparr>onDisconnectScript := Some val\<rparr>)
      else None)"

subsection \<open>Sample worlds and environments\<close>

definition initial_world :: world where
  "initial_world = \<lparr>trace = [], dicts = (\<lambda>r. None), next_ref = 1, subscriptions = []\<rparr>"

text \<open>Everything succeeds and no matching device is there.\<close>

definition quiet_env :: env where
  "quiet_env =
     \<lparr>system_status = (\<lambda>t c. 0), child_output = (\<lambda>t c. []), matching_ok = (\<lambda>t. True),
      add_notification = (\<lambda>t k d. (KERN_SUCCESS, [])), uninitialized = (\<lambda>t. [])\<rparr>"

text \<open>
  Two matching devices are there already, and no script is found: the shell says so and
  every launch returns the status of exit code 127.
\<close>

definition busy_env :: env where
  "busy_env =
     \<lparr>system_status = (\<lambda>t c. 32512),
      child_output = (\<lambda>t c. [''sh: '' @ c @ '': not found\<newline>'']),
      matching_ok = (\<lambda>t. True),
      add_notification =
        (\<lambda>t k d. (KERN_SUCCESS,
                   case k of kIOMatchedNotification \<Rightarrow> [7, 9] | kIOTerminatedNotification \<Rightarrow> [])),
      uninitialized = (\<lambda>t. [])\<rparr>"


text \<open>Every script runs, writes nothing and exits with code 1.\<close>

definition silent_failure_env :: env where
  "silent_failure_env =
     \<lparr>system_status = (\<lambda>t c. 256), child_output = (\<lambda>t c. []), matching_ok = (\<lambda>t. True),
      add_notification = (\<lambda>t k d. (KERN_SUCCESS, [])), uninitialized = (\<lambda>t. [])\<rparr>"

text \<open>A filter on vendor and product with a script for arrivals only.\<close>

definition sample_config :: AppConfig where
  "sample_config = zero_config\<lparr>vendorID := 1234, productID := 5678,
     onConnectScript := Some ''/tmp/c.sh''\<rparr>"

text \<open>Sample command lines.\<close>

definition repeated_args :: "string list" where
  "repeated_args =
     [''--name'', ''First'', ''--vendor-id'', ''12'', ''--name'', ''Second'',
      ''--on-connect'', ''/tmp/a.sh'', ''--vendor-id'', ''34'', ''--on-connect'', ''/tmp/b.sh'']"

definition sample_argv :: "string list" where
  "sample_argv =
     [''hidkitd'', ''--vendor-id'', ''1234'', ''--product-id'', ''5678'', ''--on-connect'', ''/tmp/c.sh'']"

definition negative_argv :: "string list" where
  "negative_argv = [''hidkitd'', ''--vendor-id'', ''-5'', ''--on-connect'', ''/tmp/c.sh'']"

definition negative_config :: AppConfig where
  "negative_config = zero_config\<lparr>vendorID := - 5, onConnectScript := Some ''/tmp/c.sh''\<rparr>"

section \<open>Basic facts\<close>

subsection \<open>Traces\<close>

lemma released_append [simp]: "released (a @ b) = released a @ released b"
  by (simp add: released_def)
lemma launched_append [simp]: "launched (a @ b) = launched a @ launched b"
  by (simp add: launched_def)
lemma stdout_of_append [simp]: "stdout_of (a @ b) = stdout_of a @ stdout_of b"
  by (simp add: stdout_of_def)
lemma stderr_of_append [simp]: "stderr_of (a @ b) = stderr_of a @ stderr_of b"
  by (simp add: stderr_of_def)
lemma actions_append [simp]: "actions (a @ b) = actions a @ actions b"
  by (simp add: actions_def)

lemma emit_sel [simp]:
  "trace (emit ev w) = trace w @ [ev]"
  "dicts (emit ev w) = dicts w"
  "next_ref (emit ev w) = next_ref w"
  "subscriptions (emit ev w) = subscriptions w"
  by (simp_all add: emit_def)

lemma child_output_fold:
  "fold (\<lambda>line. emit (ChildOutput line)) ls w = w\<lparr>trace := trace w @ map ChildOutput ls\<rparr>"
  by (induction ls arbitrary: w) (simp_all add: emit_def)

lemma run_script_eq:
  "run_script e script w =
     (case script of
        None \<Rightarrow> w
      | Some path \<Rightarrow>
          w\<lparr>trace := trace w
             @ [Stdout (''DAEMON: Executing command: '' @ snprintf_quoted 2048 path @ ''\<newline>''),
                System (snprintf_quoted 2048 path)]
             @ map ChildOutput
                 (child_output e
                    (trace w @
                     [Stdout (''DAEMON: Executing command: '' @ snprintf_quoted 2048 path @ ''\<newline>'')])
                    (snprintf_quoted 2048 path))\<rparr>)"
  by (simp add: run_script_def system_def printf_def Let_def child_output_fold emit_def
      split: option.split)

lemma deviceConnected_Nil [simp]: "deviceConnected e config [] w = w"
  by (simp add: deviceConnected.simps IOIteratorNext_def)

lemma deviceConnected_Cons:
  "deviceConnected e config (s # rest) w =
     (if s = 0 then w
      else deviceConnected e config rest
             (IOObjectRelease s
               (run_script e (onConnectScript config)
                 (printf ''DAEMON: Received connect (matched) event.\<newline>'' w))))"
  by (subst deviceConnected.simps) (simp add: IOIteratorNext_def)

lemma deviceConnected_fold:
  "deviceConnected e config iterator w =
     fold (\<lambda>service w. IOObjectRelease service
                          (run_script e (onConnectScript config)
                            (printf ''DAEMON: Received connect (matched) event.\<newline>'' w)))
       (yielded iterator) w"
  by (induction iterator arbitrary: w) (simp_all add: deviceConnected_Cons yielded_def)

lemma deviceDisconnected_Nil [simp]: "deviceDisconnected e config [] w = w"
  by (simp add: deviceDisconnected.simps IOIteratorNext_def)

lemma deviceDisconnected_Cons:
  "deviceDisconnected e config (s # rest) w =
     (if s = 0 then w
      else deviceDisconnected e config rest
             (IOObjectRelease s
               (run_script e (onDisconnectScript config)
                 (printf ''DAEMON: Received disconnect (terminated) event.\<newline>'' w))))"
  by (subst deviceDisconnected.simps) (simp add: IOIteratorNext_def)

lemma deviceDisconnected_fold:
  "deviceDisconnected e config iterator w =
     fold (\<lambda>service w. IOObjectRelease service
                          (run_script e (onDisconnectScript config)
                            (printf ''DAEMON: Received disconnect (terminated) event.\<newline>'' w)))
       (yielded iterator) w"
  by (induction iterator arbitrary: w) (simp_all add: deviceDisconnected_Cons yielded_def)

lemma actions_simps [simp]:
  "actions [] = []"
  "actions (Stdout s # t) = actions t"
  "actions (Stderr s # t) = actions t"
  "actions (ChildOutput l # t) = actions t"
  "actions (System c # t) = System c # actions t"
  "actions (ObjectRelease x # t) = ObjectRelease x # actions t"
  "actions (ServiceMatching n r # t) = actions t"
  "actions (NotificationPortCreate # t) = actions t"
  "actions (RunLoopAddSource # t) = actions t"
  "actions (AddMatchingNotification k d kr it # t) = AddMatchingNotification k d kr it # actions t"
  by (simp_all add: actions_def is_action_def)

lemma released_simps [simp]:
  "released [] = []"
  "released (Stdout s # t) = released t"
  "released (Stderr s # t) = released t"
  "released (ChildOutput l # t) = released t"
  "released (System c # t) = released t"
  "released (ObjectRelease x # t) = x # released t"
  "released (ServiceMatching n r # t) = released t"
  "released (NotificationPortCreate # t) = released t"
  "released (RunLoopAddSource # t) = released t"
  "released (AddMatchingNotification k d kr it # t) = released t"
  by (simp_all add: released_def)

lemma launched_simps [simp]:
  "launched [] = []"
  "launched (Stdout s # t) = launched t"
  "launched (Stderr s # t) = launched t"
  "launched (ChildOutput l # t) = launched t"
  "launched (System c # t) = c # launched t"
  "launched (ObjectRelease x # t) = launched t"
  "launched (ServiceMatching n r # t) = launched t"
  "launched (NotificationPortCreate # t) = launched t"
  "launched (RunLoopAddSource # t) = launched t"
  "launched (AddMatchingNotification k d kr it # t) = launched t"
  by (simp_all add: launched_def)

lemma stdout_of_simps [simp]:
  "stdout_of [] = []"
  "stdout_of (Stdout s # t) = s # stdout_of t"
  "stdout_of (Stderr s # t) = stdout_of t"
  "stdout_of (ChildOutput l # t) = stdout_of t"
  "stdout_of (System c # t) = stdout_of t"
  "stdout_of (ObjectRelease x # t) = stdout_of t"
  "stdout_of (ServiceMatching n r # t) = stdout_of t"
  "stdout_of (NotificationPortCreate # t) = stdout_of t"
  "stdout_of (RunLoopAddSource # t) = stdout_of t"
  "stdout_of (AddMatchingNotification k d kr it # t) = stdout_of t"
  by (simp_all add: stdout_of_def)

lemma stderr_of_simps [simp]:
  "stderr_of [] = []"
  "stderr_of (Stdout s # t) = stderr_of t"
  "stderr_of (Stderr s # t) = s # stderr_of t"
  "stderr_of (ChildOutput l # t) = stderr_of t"
  "stderr_of (System c # t) = stderr_of t"
  "stderr_of (ObjectRelease x # t) = stderr_of t"
  "stderr_of (ServiceMatching n r # t) = stderr_of t"
  "stderr_of (NotificationPortCreate # t) = stderr_of t"
  "stderr_of (RunLoopAddSource # t) = stderr_of t"
  "stderr_of (AddMatchingNotification k d kr it # t) = stderr_of t"
  by (simp_all add: stderr_of_def)

lemma child_output_projections [simp]:
  "actions (map ChildOutput ls) = []"
  "released (map ChildOutput ls) = []"
  "launched (map ChildOutput ls) = []"
  "stdout_of (map ChildOutput ls) = []"
  "stderr_of (map ChildOutput ls) = []"
  by (induction ls) simp_all

lemma handle_fold_actions:
  "actions (trace (fold (\<lambda>service w. IOObjectRelease service (run_script e script (printf msg w)))
      xs w)) =
     actions (trace w) @ concat (map (handled script) xs)"
  by (induction xs arbitrary: w)
     (simp_all add: run_script_eq IOObjectRelease_def printf_def handled_def split: option.split)

lemma deviceConnected_actions:
  "actions (trace (deviceConnected e config iterator w)) =
     actions (trace w) @ concat (map (handled (onConnectScript config)) (yielded iterator))"
  by (simp add: deviceConnected_fold handle_fold_actions)

lemma deviceDisconnected_actions:
  "actions (trace (deviceDisconnected e config iterator w)) =
     actions (trace w) @ concat (map (handled (onDisconnectScript config)) (yielded iterator))"
  by (simp add: deviceDisconnected_fold handle_fold_actions)

lemma update_fresh: "map_of ps k = None \<Longrightarrow> AList.update k v ps = ps @ [(k, v)]"
  by (induction ps) (auto split: if_splits)

lemma map_of_optional [simp]:
  "map_of (if c then [(k', v)] else []) k = (if c \<and> k = k' then Some v else None)"
  "map_of (case x of Some y \<Rightarrow> [(k', f y)] | None \<Rightarrow> []) k =
     (case x of Some y \<Rightarrow> if k = k' then Some (f y) else None | None \<Rightarrow> None)"
  by (simp_all split: option.split)

lemma set_number:
  assumes "dicts w r = Some d" and "map_of d k = None"
  shows "dicts (if c then CFDictionarySetValue r k v w else w) =
           (dicts w)(r \<mapsto> d @ (if c then [(k, v)] else []))"
    and "trace (if c then CFDictionarySetValue r k v w else w) = trace w"
    and "next_ref (if c then CFDictionarySetValue r k v w else w) = next_ref w"
    and "subscriptions (if c then CFDictionarySetValue r k v w else w) = subscriptions w"
  using assms by (auto simp: CFDictionarySetValue_def update_fresh)

lemma set_string:
  assumes "dicts w r = Some d" and "map_of d k = None"
  shows "dicts (case x of Some y \<Rightarrow> CFDictionarySetValue r k (CFString y) w | None \<Rightarrow> w) =
           (dicts w)(r \<mapsto> d @ (case x of Some y \<Rightarrow> [(k, CFString y)] | None \<Rightarrow> []))"
    and "trace (case x of Some y \<Rightarrow> CFDictionarySetValue r k (CFString y) w | None \<Rightarrow> w) = trace w"
    and "next_ref (case x of Some y \<Rightarrow> CFDictionarySetValue r k (CFString y) w | None \<Rightarrow> w) = next_ref w"
    and "subscriptions (case x of Some y \<Rightarrow> CFDictionarySetValue r k (CFString y) w | None \<Rightarrow> w)
           = subscriptions w"
  using assms by (auto simp: CFDictionarySetValue_def update_fresh split: option.split)

lemma createMatchingDictionary_ok:
  assumes "matching_ok e (trace w)"
  shows "createMatchingDictionary e config w =
     (Some (next_ref w),
      w\<lparr>trace := trace w @ [ServiceMatching ''IOHIDUserDevice'' (Some (next_ref w))],
        dicts := (dicts w)(next_ref w \<mapsto> spec_query config),
        next_ref := next_ref w + 1\<rparr>)"
proof -
  define r where "r = next_ref w"
  define b where "b = [(''IOProviderClass'', CFString ''IOHIDUserDevice'')]"
  define c1 where "c1 = (if vendorID config > 0 then [(''VendorID'', CFNumber (vendorID config))] else [])"
  define c2 where "c2 = (if productID config > 0 then [(''ProductID'', CFNumber (productID config))] else [])"
  define c3 where "c3 = (if usagePage config > 0 then [(''PrimaryUsagePage'', CFNumber (usagePage config))] else [])"
  define c4 where "c4 = (if usage config > 0 then [(''PrimaryUsage'', CFNumber (usage config))] else [])"
  define c5 where "c5 = (case productName config of Some name \<Rightarrow> [(''Product'', CFString name)] | None \<Rightarrow> [])"
  define c6 where "c6 = (case deviceAddress config of Some a \<Rightarrow> [(''DeviceAddress'', CFString a)] | None \<Rightarrow> [])"
  define w0 where "w0 = emit (ServiceMatching ''IOHIDUserDevice'' (Some r))
                          (w\<lparr>dicts := (dicts w)(r \<mapsto> b), next_ref := r + 1\<rparr>)"
  define w1 where "w1 = (if vendorID config > 0
                     then CFDictionarySetValue r ''VendorID'' (CFNumber (vendorID config)) w0
                     else w0)"
  define w2 where "w2 = (if productID config > 0
                     then CFDictionarySetValue r ''ProductID'' (CFNumber (productID config)) w1
                     else w1)"
  define w3 where "w3 = (if usagePage config > 0
                     then CFDictionarySetValue r ''PrimaryUsagePage'' (CFNumber (usagePage config)) w2
                     else w2)"
  define w4 where "w4 = (if usage config > 0
                     then CFDictionarySetValue r ''PrimaryUsage'' (CFNumber (usage config)) w3
                     else w3)"
  define w5 where "w5 = (case productName config of
                       Some name \<Rightarrow> CFDictionarySetValue r ''Product'' (CFString name) w4
                     | None \<Rightarrow> w4)"
  define w6 where "w6 = (case deviceAddress config of
                       Some address \<Rightarrow> CFDictionarySetValue r ''DeviceAddress'' (CFString address) w5
                     | None \<Rightarrow> w5)"
  have m: "IOServiceMatching e ''IOHIDUserDevice'' w = (Some r, w0)"
    using assms by (simp add: IOServiceMatching_def Let_def r_def w0_def b_def)
  have res: "createMatchingDictionary e config w = (Some r, w6)"
    unfolding w6_def w5_def w4_def w3_def w2_def w1_def createMatchingDictionary_def m
    by (simp only: Let_def prod.case option.case)
  have d0: "dicts w0 r = Some b" by (simp add: w0_def)
  have f1: "map_of b ''VendorID'' = None" by (simp add: b_def)
  note s1 = set_number [OF d0 f1, of "vendorID config > 0" "CFNumber (vendorID config)",
      folded w1_def c1_def]
  have d1: "dicts w1 r = Some (b @ c1)" by (simp add: s1)
  have f2: "map_of (b @ c1) ''ProductID'' = None" by (simp add: b_def c1_def)
  note s2 = set_number [OF d1 f2, of "productID config > 0" "CFNumber (productID config)",
      folded w2_def c2_def]
  have d2: "dicts w2 r = Some ((b @ c1) @ c2)" by (simp add: s2)
  have f3: "map_of ((b @ c1) @ c2) ''PrimaryUsagePage'' = None" by (simp add: b_def c1_def c2_def)
  note s3 = set_number [OF d2 f3, of "usagePage config > 0" "CFNumber (usagePage config)",
      folded w3_def c3_def]
  have d3: "dicts w3 r = Some (((b @ c1) @ c2) @ c3)" by (simp add: s3)
  have f4: "map_of (((b @ c1) @ c2) @ c3) ''PrimaryUsage'' = None"
    by (simp add: b_def c1_def c2_def c3_def)
  note s4 = set_number [OF d3 f4, of "usage config > 0" "CFNumber (usage config)",
      folded w4_def c4_def]
  have d4: "dicts w4 r = Some ((((b @ c1) @ c2) @ c3) @ c4)" by (simp add: s4)
  have f5: "map_of ((((b @ c1) @ c2) @ c3) @ c4) ''Product'' = None"
    by (simp add: b_def c1_def c2_def c3_def c4_def)
  note s5 = set_string [OF d4 f5, of "productName config", folded w5_def c5_def]
  have d5: "dicts w5 r = Some (((((b @ c1) @ c2) @ c3) @ c4) @ c5)" by (simp add: s5)
  have f6: "map_of (((((b @ c1) @ c2) @ c3) @ c4) @ c5) ''DeviceAddress'' = None"
    by (simp add: b_def c1_def c2_def c3_def c4_def c5_def split: option.split)
  note s6 = set_string [OF d5 f6, of "deviceAddress config", folded w6_def c6_def]
  have q: "((((((b @ c1) @ c2) @ c3) @ c4) @ c5) @ c6) = spec_query config"
    by (simp add: spec_query_def spec_constraints_def b_def c1_def c2_def c3_def c4_def c5_def c6_def)
  have "trace w6 = trace w @ [ServiceMatching ''IOHIDUserDevice'' (Some r)]"
    by (simp add: s6 s5 s4 s3 s2 s1 w0_def)
  moreover have "next_ref w6 = r + 1"
    by (simp add: s6 s5 s4 s3 s2 s1 w0_def)
  moreover have "subscriptions w6 = subscriptions w"
    by (simp add: s6 s5 s4 s3 s2 s1 w0_def)
  moreover have "dicts w6 = (dicts w)(r \<mapsto> spec_query config)"
    by (simp add: s6(1) s5(1) s4(1) s3(1) s2(1) s1(1) w0_def q [symmetric])
  ultimately have "w6 = w\<lparr>trace := trace w @ [ServiceMatching ''IOHIDUserDevice'' (Some r)],
        dicts := (dicts w)(r \<mapsto> spec_query config), next_ref := r + 1\<rparr>"
    by simp
  with res show ?thesis by (simp add: r_def)
qed

lemma createMatchingDictionary_failed:
  assumes "\<not> matching_ok e (trace w)"
  shows "createMatchingDictionary e config w =
     (None,
      w\<lparr>trace := trace w @ [ServiceMatching ''IOHIDUserDevice'' None,
                            Stderr ''DAEMON_ERROR: IOServiceMatching failed.\<newline>'']\<rparr>)"
  using assms
  by (simp add: createMatchingDictionary_def IOServiceMatching_def fprintf_stderr_def emit_def)

lemma released_actions: "released (actions t) = released t"
  by (induction t) (simp_all add: actions_def is_action_def released_def split: event.split)

lemma launched_actions: "launched (actions t) = launched t"
  by (induction t) (simp_all add: actions_def is_action_def launched_def split: event.split)

lemma released_handled: "released (concat (map (handled script) xs)) = xs"
  by (induction xs) (simp_all add: handled_def split: option.split)

lemma launched_handled:
  "launched (concat (map (handled script) xs)) =
     (case script of None \<Rightarrow> [] | Some path \<Rightarrow> replicate (length xs) (snprintf_quoted 2048 path))"
  by (induction xs) (simp_all add: handled_def split: option.split)

lemma yielded_all: "0 \<notin> set batch \<Longrightarrow> yielded batch = batch"
  by (induction batch) (auto simp: yielded_def)

section \<open>The dispatcher callbacks\<close>

text \<open>
  C2. When a callback receives a batch of device handles (none of them the null object),
  it is the loop body applied once to each handle in order: the action runner is called
  once per handle, every handle of the batch is released exactly once, and a script is
  launched once per handle when one is configured for the event kind and never when
  none is. Nothing of this depends on what the launches return. This holds for both the
  connect and the disconnect callback.
\<close>

theorem callback_batch:
  assumes "0 \<notin> set batch"
  shows "deviceConnected e config batch w =
           fold (\<lambda>service w. IOObjectRelease service
                   (run_script e (onConnectScript config)
                     (printf ''DAEMON: Received connect (matched) event.\<newline>'' w))) batch w
       \<and> released (trace (deviceConnected e config batch w)) = released (trace w) @ batch
       \<and> launched (trace (deviceConnected e config batch w)) =
           launched (trace w) @
           (case onConnectScript config of
              None \<Rightarrow> []
            | Some path \<Rightarrow> replicate (length batch) (snprintf_quoted 2048 path))
       \<and> deviceDisconnected e config batch w =
           fold (\<lambda>service w. IOObjectRelease service
                   (run_script e (onDisconnectScript config)
                     (printf ''DAEMON: Received disconnect (terminated) event.\<newline>'' w))) batch w
       \<and> released (trace (deviceDisconnected e config batch w)) = released (trace w) @ batch
       \<and> launched (trace (deviceDisconnected e config batch w)) =
           launched (trace w) @
           (case onDisconnectScript config of
              None \<Rightarrow> []
            | Some path \<Rightarrow> replicate (length batch) (snprintf_quoted 2048 path))"
proof -
  have y: "yielded batch = batch" using assms by (rule yielded_all)
  have c: "actions (trace (deviceConnected e config batch w)) =
             actions (trace w) @ concat (map (handled (onConnectScript config)) batch)"
    by (simp add: deviceConnected_actions y)
  have d: "actions (trace (deviceDisconnected e config batch w)) =
             actions (trace w) @ concat (map (handled (onDisconnectScript config)) batch)"
    by (simp add: deviceDisconnected_actions y)
  have "released (actions (trace (deviceConnected e config batch w))) = released (trace w) @ batch"
    unfolding c by (simp add: released_actions released_handled)
  then have rc: "released (trace (deviceConnected e config batch w)) = released (trace w) @ batch"
    by (simp add: released_actions)
  have "released (actions (trace (deviceDisconnected e config batch w))) = released (trace w) @ batch"
    unfolding d by (simp add: released_actions released_handled)
  then have rd: "released (trace (deviceDisconnected e config batch w)) = released (trace w) @ batch"
    by (simp add: released_actions)
  have "launched (actions (trace (deviceConnected e config batch w))) =
          launched (trace w) @
           (case onConnectScript config of
              None \<Rightarrow> []
            | Some path \<Rightarrow> replicate (length batch) (snprintf_quoted 2048 path))"
    unfolding c by (simp add: launched_actions launched_handled)
  then have lc: "launched (trace (deviceConnected e config batch w)) =
          launched (trace w) @
           (case onConnectScript config of
              None \<Rightarrow> []
            | Some path \<Rightarrow> replicate (length batch) (snprintf_quoted 2048 path))"
    by (simp add: launched_actions)
  have "launched (actions (trace (deviceDisconnected e config batch w))) =
          launched (trace w) @
           (case onDisconnectScript config of
              None \<Rightarrow> []
            | Some path \<Rightarrow> replicate (length batch) (snprintf_quoted 2048 path))"
    unfolding d by (simp add: launched_actions launched_handled)
  then have ld: "launched (trace (deviceDisconnected e config batch w)) =
          launched (trace w) @
           (case onDisconnectScript config of
              None \<Rightarrow> []
            | Some path \<Rightarrow> replicate (length batch) (snprintf_quoted 2048 path))"
    by (simp add: launched_actions)
  show ?thesis
    using rc rd lc ld deviceConnected_fold [of e config batch w]
      deviceDisconnected_fold [of e config batch w]
    by (simp only: y simp_thms)
qed

theorem callback_batch_witness:
  "0 \<notin> set [7, 9 :: nat]
   \<and> released (trace (deviceConnected busy_env sample_config [7, 9] initial_world)) = [7, 9]
   \<and> length (launched (trace (deviceConnected busy_env sample_config [7, 9] initial_world))) = 2
   \<and> released (trace (deviceDisconnected busy_env sample_config [7, 9] initial_world)) = [7, 9]
   \<and> launched (trace (deviceDisconnected busy_env sample_config [7, 9] initial_world)) = []"
proof -
  have h: "0 \<notin> set [7, 9 :: nat]" by simp
  have i: "released (trace initial_world) = []" "launched (trace initial_world) = []"
    by (simp_all add: initial_world_def)
  have c: "onConnectScript sample_config = Some ''/tmp/c.sh''"
    "onDisconnectScript sample_config = None"
    by (simp_all add: sample_config_def zero_config_def)
  note t = callback_batch [OF h, of busy_env sample_config initial_world]
  note r1 = t [THEN conjunct2, THEN conjunct1]
  note l1 = t [THEN conjunct2, THEN conjunct2, THEN conjunct1]
  note r2 = t [THEN conjunct2, THEN conjunct2, THEN conjunct2, THEN conjunct2, THEN conjunct1]
  note l2 = t [THEN conjunct2, THEN conjunct2, THEN conjunct2, THEN conjunct2, THEN conjunct2]
  show ?thesis by (simp add: r1 l1 r2 l2 i c)
qed

section \<open>The action runner\<close>

lemma snprintf_quoted_2048:
  "snprintf_quoted 2048 path =
     (if length path \<le> 2045 then [CHR 0x22] @ path @ [CHR 0x22] else CHR 0x22 # take 2046 path)"
proof -
  have "take 2047 (CHR 0x22 # path @ [CHR 0x22]) = CHR 0x22 # take 2046 (path @ [CHR 0x22])"
    by (simp add: take_Cons')
  then show ?thesis
    by (simp add: snprintf_quoted_def)
qed

text \<open>
  C9. For every script path the command handed to \<^verbatim>\<open>system\<close> is the path between double
  quotes, built in a buffer of 2048 bytes that holds 2047 bytes of text. A path of at
  most 2045 bytes is launched as it is, between its quotes, and no longer path is: from
  2046 bytes on the command is cut to 2047 bytes, the opening quote and the first 2046
  bytes of the path, so the closing quote and the rest of the path are lost.
\<close>

theorem run_script_command:
  "launched (trace (run_script e (Some path) w)) =
     launched (trace w) @
     [if length path \<le> 2045 then [CHR 0x22] @ path @ [CHR 0x22] else CHR 0x22 # take 2046 path]
   \<and> (2046 \<le> length path \<longrightarrow> length (snprintf_quoted 2048 path) = 2047)
   \<and> (snprintf_quoted 2048 path = [CHR 0x22] @ path @ [CHR 0x22]) = (length path \<le> 2045)"
proof -
  have launch: "launched (trace (run_script e (Some path) w)) =
      launched (trace w) @ [snprintf_quoted 2048 path]"
    by (simp add: run_script_eq)
  have command: "snprintf_quoted 2048 path =
      (if length path \<le> 2045 then [CHR 0x22] @ path @ [CHR 0x22] else CHR 0x22 # take 2046 path)"
    by (rule snprintf_quoted_2048)
  have cut: "2046 \<le> length path \<longrightarrow> length (snprintf_quoted 2048 path) = 2047"
    by (simp add: command)
  have verbatim: "(snprintf_quoted 2048 path = [CHR 0x22] @ path @ [CHR 0x22]) = (length path \<le> 2045)"
  proof (cases "length path \<le> 2045")
    case True
    then show ?thesis by (simp add: command)
  next
    case False
    then have "length (snprintf_quoted 2048 path) = 2047" using cut by simp
    moreover from False have "length ([CHR 0x22] @ path @ [CHR 0x22]) \<noteq> 2047" by simp
    ultimately have "snprintf_quoted 2048 path \<noteq> [CHR 0x22] @ path @ [CHR 0x22]" by metis
    with False show ?thesis by simp
  qed
  from launch cut verbatim show ?thesis unfolding command by simp
qed

theorem run_script_command_witness:
  "launched (trace (run_script quiet_env (Some ''/tmp/c.sh'') initial_world)) =
     [[CHR 0x22] @ ''/tmp/c.sh'' @ [CHR 0x22]]
   \<and> launched (trace (run_script quiet_env (Some (replicate 2046 (CHR ''a''))) initial_world)) =
     [CHR 0x22 # replicate 2046 (CHR ''a'')]
   \<and> launched (trace (run_script quiet_env (Some (replicate 3000 (CHR ''a''))) initial_world)) =
     [CHR 0x22 # replicate 2046 (CHR ''a'')]"
proof -
  note a = run_script_command [of quiet_env "''/tmp/c.sh''" initial_world, THEN conjunct1]
  note b = run_script_command [of quiet_env "replicate 2046 (CHR ''a'')" initial_world,
      THEN conjunct1]
  note c = run_script_command [of quiet_env "replicate 3000 (CHR ''a'')" initial_world,
      THEN conjunct1]
  from a b c show ?thesis by (simp add: initial_world_def)
qed

lemma run_script_env:
  "child_output e' = child_output e \<Longrightarrow> run_script e' script w = run_script e script w"
  by (cases script) (simp_all add: run_script_eq)

lemma deviceConnected_env:
  assumes "child_output e' = child_output e"
  shows "deviceConnected e' config iterator w = deviceConnected e config iterator w"
  by (simp add: deviceConnected_fold run_script_env [OF assms])

lemma deviceDisconnected_env:
  assumes "child_output e' = child_output e"
  shows "deviceDisconnected e' config iterator w = deviceDisconnected e config iterator w"
  by (simp add: deviceDisconnected_fold run_script_env [OF assms])

lemma deliver_env:
  assumes "child_output e' = child_output e"
  shows "deliver e' n w = deliver e n w"
  by (simp add: deliver_def invoke_def deviceConnected_env [OF assms]
      deviceDisconnected_env [OF assms] split: option.split callback.split)

lemma CFRunLoopRun_env:
  assumes "child_output e' = child_output e"
  shows "CFRunLoopRun e' ns w = CFRunLoopRun e ns w"
  by (induction ns arbitrary: w) (simp_all add: deliver_env [OF assms])

text \<open>
  C5, as amended. What a launch returns is thrown away: the action runner, both
  callbacks and the run loop leave the same world whatever the statuses of the launches
  are, so a failing launch is not propagated and does not stop the processing of
  notifications. The daemon itself writes one line per launch, the announcement of the
  command on standard output before the launch, and nothing to standard error; after
  the launch the trace holds only what the shell and the script wrote themselves. So a
  failure shows to the operator when the child reports it (as the shell does for a
  path not found) and not otherwise.
\<close>

theorem launch_outcome_ignored:
  "run_script (e\<lparr>system_status := s\<rparr>) script w = run_script e script w
   \<and> deviceConnected (e\<lparr>system_status := s\<rparr>) config iterator w = deviceConnected e config iterator w
   \<and> deviceDisconnected (e\<lparr>system_status := s\<rparr>) config iterator w
       = deviceDisconnected e config iterator w
   \<and> CFRunLoopRun (e\<lparr>system_status := s\<rparr>) notifications w = CFRunLoopRun e notifications w
   \<and> trace (run_script e (Some path) w) =
       trace w
       @ [Stdout (''DAEMON: Executing command: '' @ snprintf_quoted 2048 path @ ''\<newline>''),
          System (snprintf_quoted 2048 path)]
       @ map ChildOutput
           (child_output e
              (trace w @
               [Stdout (''DAEMON: Executing command: '' @ snprintf_quoted 2048 path @ ''\<newline>'')])
              (snprintf_quoted 2048 path))
   \<and> stdout_of (trace (run_script e (Some path) w)) =
       stdout_of (trace w) @ [''DAEMON: Executing command: '' @ snprintf_quoted 2048 path @ ''\<newline>'']
   \<and> stderr_of (trace (run_script e (Some path) w)) = stderr_of (trace w)"
proof -
  have c: "child_output (e\<lparr>system_status := s\<rparr>) = child_output e" by simp
  have t: "trace (run_script e (Some path) w) =
       trace w
       @ [Stdout (''DAEMON: Executing command: '' @ snprintf_quoted 2048 path @ ''\<newline>''),
          System (snprintf_quoted 2048 path)]
       @ map ChildOutput
           (child_output e
              (trace w @
               [Stdout (''DAEMON: Executing command: '' @ snprintf_quoted 2048 path @ ''\<newline>'')])
              (snprintf_quoted 2048 path))"
    by (simp add: run_script_eq)
  have out: "stdout_of (trace (run_script e (Some path) w)) =
       stdout_of (trace w) @ [''DAEMON: Executing command: '' @ snprintf_quoted 2048 path @ ''\<newline>'']"
    unfolding t by simp
  have err: "stderr_of (trace (run_script e (Some path) w)) = stderr_of (trace w)"
    unfolding t by simp
  show ?thesis
    apply (intro conjI)
          apply (rule run_script_env [OF c])
         apply (rule deviceConnected_env [OF c])
        apply (rule deviceDisconnected_env [OF c])
       apply (rule CFRunLoopRun_env [OF c])
      apply (rule t)
     apply (rule out)
    apply (rule err)
    done
qed

text \<open>
  C5 as stated fails for a script that exits with code 1 and writes nothing: the launch
  fails, and the trace is the announcement and the launch, the same as when the script
  succeeds.
\<close>

theorem silent_failure_not_logged_counterexample:
  "fst (system silent_failure_env (snprintf_quoted 2048 ''/tmp/c.sh'')
         (printf (''DAEMON: Executing command: '' @ snprintf_quoted 2048 ''/tmp/c.sh'' @ ''\<newline>'')
            initial_world)) = 256
   \<and> trace (run_script silent_failure_env (Some ''/tmp/c.sh'') initial_world) =
       [Stdout (''DAEMON: Executing command: '' @ [CHR 0x22] @ ''/tmp/c.sh'' @ [CHR 0x22] @ ''\<newline>''),
        System ([CHR 0x22] @ ''/tmp/c.sh'' @ [CHR 0x22])]
   \<and> trace (run_script quiet_env (Some ''/tmp/c.sh'') initial_world) =
       trace (run_script silent_failure_env (Some ''/tmp/c.sh'') initial_world)"
  by (simp add: run_script_eq system_def silent_failure_env_def quiet_env_def
      snprintf_quoted_2048 initial_world_def)

section \<open>The matcher compiler\<close>

lemma list_all_optional [simp]:
  "list_all P (if c then [x] else []) = (c \<longrightarrow> P x)"
  "list_all P (case y of Some z \<Rightarrow> [f z] | None \<Rightarrow> []) = (\<forall>z. y = Some z \<longrightarrow> P (f z))"
  by (simp_all split: option.split)

lemma device_matches_spec_query:
  "device_matches (spec_query config) properties =
     (properties ''IOProviderClass'' = Some (CFString ''IOHIDUserDevice'')
      \<and> (vendorID config > 0 \<longrightarrow> properties ''VendorID'' = Some (CFNumber (vendorID config)))
      \<and> (productID config > 0 \<longrightarrow> properties ''ProductID'' = Some (CFNumber (productID config)))
      \<and> (usagePage config > 0 \<longrightarrow> properties ''PrimaryUsagePage'' = Some (CFNumber (usagePage config)))
      \<and> (usage config > 0 \<longrightarrow> properties ''PrimaryUsage'' = Some (CFNumber (usage config)))
      \<and> (\<forall>name. productName config = Some name \<longrightarrow> properties ''Product'' = Some (CFString name))
      \<and> (\<forall>a. deviceAddress config = Some a \<longrightarrow> properties ''DeviceAddress'' = Some (CFString a)))"
  by (simp add: device_matches_def spec_query_def spec_constraints_def)

lemma spec_query_lookup:
  "map_of (spec_query config) ''IOProviderClass'' = Some (CFString ''IOHIDUserDevice'')"
  "map_of (spec_query config) ''VendorID'' =
     (if vendorID config > 0 then Some (CFNumber (vendorID config)) else None)"
  "map_of (spec_query config) ''ProductID'' =
     (if productID config > 0 then Some (CFNumber (productID config)) else None)"
  "map_of (spec_query config) ''PrimaryUsagePage'' =
     (if usagePage config > 0 then Some (CFNumber (usagePage config)) else None)"
  "map_of (spec_query config) ''PrimaryUsage'' =
     (if usage config > 0 then Some (CFNumber (usage config)) else None)"
  "map_of (spec_query config) ''Product'' = map_option CFString (productName config)"
  "map_of (spec_query config) ''DeviceAddress'' = map_option CFString (deviceAddress config)"
  by (simp_all add: spec_query_def spec_constraints_def map_add_def split: option.split)

lemma distinct_optional:
  "map_of d k = None \<Longrightarrow> distinct (map fst (d @ (if c then [(k, v)] else []))) = distinct (map fst d)"
  "map_of d k = None \<Longrightarrow>
     distinct (map fst (d @ (case y of Some z \<Rightarrow> [(k, f z)] | None \<Rightarrow> []))) = distinct (map fst d)"
  by (auto simp: map_of_eq_None_iff split: option.split)

lemma spec_query_distinct: "distinct (map fst (spec_query config))"
proof -
  define b where "b = [(''IOProviderClass'', CFString ''IOHIDUserDevice'')]"
  define c1 where "c1 = (if vendorID config > 0 then [(''VendorID'', CFNumber (vendorID config))] else [])"
  define c2 where "c2 = (if productID config > 0 then [(''ProductID'', CFNumber (productID config))] else [])"
  define c3 where "c3 = (if usagePage config > 0 then [(''PrimaryUsagePage'', CFNumber (usagePage config))] else [])"
  define c4 where "c4 = (if usage config > 0 then [(''PrimaryUsage'', CFNumber (usage config))] else [])"
  define c5 where "c5 = (case productName config of Some name \<Rightarrow> [(''Product'', CFString name)] | None \<Rightarrow> [])"
  define c6 where "c6 = (case deviceAddress config of Some a \<Rightarrow> [(''DeviceAddress'', CFString a)] | None \<Rightarrow> [])"
  have q: "spec_query config = (((((b @ c1) @ c2) @ c3) @ c4) @ c5) @ c6"
    by (simp add: spec_query_def spec_constraints_def b_def c1_def c2_def c3_def c4_def c5_def c6_def)
  have f1: "map_of b ''VendorID'' = None" by (simp add: b_def)
  have f2: "map_of (b @ c1) ''ProductID'' = None" by (simp add: b_def c1_def)
  have f3: "map_of ((b @ c1) @ c2) ''PrimaryUsagePage'' = None" by (simp add: b_def c1_def c2_def)
  have f4: "map_of (((b @ c1) @ c2) @ c3) ''PrimaryUsage'' = None"
    by (simp add: b_def c1_def c2_def c3_def)
  have f5: "map_of ((((b @ c1) @ c2) @ c3) @ c4) ''Product'' = None"
    by (simp add: b_def c1_def c2_def c3_def c4_def)
  have f6: "map_of (((((b @ c1) @ c2) @ c3) @ c4) @ c5) ''DeviceAddress'' = None"
    by (simp add: b_def c1_def c2_def c3_def c4_def c5_def split: option.split)
  have "distinct (map fst b)" by (simp add: b_def)
  then have "distinct (map fst (b @ c1))"
    unfolding c1_def by (simp only: distinct_optional(1) [OF f1])
  then have "distinct (map fst ((b @ c1) @ c2))"
    unfolding c2_def by (simp only: distinct_optional(1) [OF f2])
  then have "distinct (map fst (((b @ c1) @ c2) @ c3))"
    unfolding c3_def by (simp only: distinct_optional(1) [OF f3])
  then have "distinct (map fst ((((b @ c1) @ c2) @ c3) @ c4))"
    unfolding c4_def by (simp only: distinct_optional(1) [OF f4])
  then have "distinct (map fst (((((b @ c1) @ c2) @ c3) @ c4) @ c5))"
    unfolding c5_def by (simp only: distinct_optional(2) [OF f5])
  then have "distinct (map fst ((((((b @ c1) @ c2) @ c3) @ c4) @ c5) @ c6))"
    unfolding c6_def by (simp only: distinct_optional(2) [OF f6])
  then show ?thesis by (simp only: q)
qed

lemma spec_query_keys:
  "fst ` set (spec_query config) \<subseteq>
     {''IOProviderClass'', ''VendorID'', ''ProductID'', ''PrimaryUsagePage'', ''PrimaryUsage'',
      ''Product'', ''DeviceAddress''}"
  unfolding spec_query_def spec_constraints_def
  by (auto split: if_splits option.splits)

lemma spec_query_narrows:
  assumes "adds_fields config config'" and "device_matches (spec_query config') properties"
  shows "device_matches (spec_query config) properties"
  using assms unfolding device_matches_spec_query adds_fields_def by auto

text \<open>
  C3. When \<^verbatim>\<open>IOServiceMatching\<close> builds its dictionary, \<^verbatim>\<open>createMatchingDictionary\<close>
  returns a dictionary whose entries are the provider class and one entry per present
  field (a numeric field when positive, a string field when not NULL), with no key
  twice and no entry for an absent field. A device matches it exactly when it has all
  these properties, and a configuration with more fields matches no device that the
  configuration with fewer fields does not match.
\<close>

theorem createMatchingDictionary_constraints:
  assumes "matching_ok e (trace w)"
  shows "\<exists>dict w'. createMatchingDictionary e config w = (Some dict, w')
      \<and> dicts w' dict = Some (spec_query config)
      \<and> distinct (map fst (spec_query config))
      \<and> fst ` set (spec_query config) \<subseteq>
           {''IOProviderClass'', ''VendorID'', ''ProductID'', ''PrimaryUsagePage'',
            ''PrimaryUsage'', ''Product'', ''DeviceAddress''}
      \<and> map_of (spec_query config) ''IOProviderClass'' = Some (CFString ''IOHIDUserDevice'')
      \<and> map_of (spec_query config) ''VendorID'' =
           (if vendorID config > 0 then Some (CFNumber (vendorID config)) else None)
      \<and> map_of (spec_query config) ''ProductID'' =
           (if productID config > 0 then Some (CFNumber (productID config)) else None)
      \<and> map_of (spec_query config) ''PrimaryUsagePage'' =
           (if usagePage config > 0 then Some (CFNumber (usagePage config)) else None)
      \<and> map_of (spec_query config) ''PrimaryUsage'' =
           (if usage config > 0 then Some (CFNumber (usage config)) else None)
      \<and> map_of (spec_query config) ''Product'' = map_option CFString (productName config)
      \<and> map_of (spec_query config) ''DeviceAddress'' = map_option CFString (deviceAddress config)
      \<and> (\<forall>properties. device_matches (spec_query config) properties =
           (properties ''IOProviderClass'' = Some (CFString ''IOHIDUserDevice'')
            \<and> (vendorID config > 0 \<longrightarrow> properties ''VendorID'' = Some (CFNumber (vendorID config)))
            \<and> (productID config > 0 \<longrightarrow> properties ''ProductID'' = Some (CFNumber (productID config)))
            \<and> (usagePage config > 0 \<longrightarrow>
                 properties ''PrimaryUsagePage'' = Some (CFNumber (usagePage config)))
            \<and> (usage config > 0 \<longrightarrow> properties ''PrimaryUsage'' = Some (CFNumber (usage config)))
            \<and> (\<forall>name. productName config = Some name \<longrightarrow>
                 properties ''Product'' = Some (CFString name))
            \<and> (\<forall>a. deviceAddress config = Some a \<longrightarrow>
                 properties ''DeviceAddress'' = Some (CFString a))))
      \<and> (\<forall>config' properties.
            adds_fields config config' \<longrightarrow> device_matches (spec_query config') properties \<longrightarrow>
            device_matches (spec_query config) properties)"
proof -
  have "dicts (snd (createMatchingDictionary e config w)) (next_ref w) = Some (spec_query config)"
    by (simp add: createMatchingDictionary_ok [OF assms])
  moreover have "fst (createMatchingDictionary e config w) = Some (next_ref w)"
    by (simp add: createMatchingDictionary_ok [OF assms])
  ultimately obtain dict w' where r: "createMatchingDictionary e config w = (Some dict, w')"
      "dicts w' dict = Some (spec_query config)"
    by (metis prod.collapse)
  have n: "\<forall>config' properties.
            adds_fields config config' \<longrightarrow> device_matches (spec_query config') properties \<longrightarrow>
            device_matches (spec_query config) properties"
    using spec_query_narrows by blast
  have m: "\<forall>properties. device_matches (spec_query config) properties =
           (properties ''IOProviderClass'' = Some (CFString ''IOHIDUserDevice'')
            \<and> (vendorID config > 0 \<longrightarrow> properties ''VendorID'' = Some (CFNumber (vendorID config)))
            \<and> (productID config > 0 \<longrightarrow> properties ''ProductID'' = Some (CFNumber (productID config)))
            \<and> (usagePage config > 0 \<longrightarrow>
                 properties ''PrimaryUsagePage'' = Some (CFNumber (usagePage config)))
            \<and> (usage config > 0 \<longrightarrow> properties ''PrimaryUsage'' = Some (CFNumber (usage config)))
            \<and> (\<forall>name. productName config = Some name \<longrightarrow>
                 properties ''Product'' = Some (CFString name))
            \<and> (\<forall>a. deviceAddress config = Some a \<longrightarrow>
                 properties ''DeviceAddress'' = Some (CFString a)))"
    by (rule allI) (rule device_matches_spec_query)
  show ?thesis
    apply (rule exI [of _ dict])
    apply (rule exI [of _ w'])
    apply (intro conjI)
                apply (rule r(1))
               apply (rule r(2))
              apply (rule spec_query_distinct)
             apply (rule spec_query_keys)
            apply (rule spec_query_lookup(1))
           apply (rule spec_query_lookup(2))
          apply (rule spec_query_lookup(3))
         apply (rule spec_query_lookup(4))
        apply (rule spec_query_lookup(5))
       apply (rule spec_query_lookup(6))
      apply (rule spec_query_lookup(7))
     apply (rule m)
    apply (rule n)
    done
qed

theorem createMatchingDictionary_constraints_witness:
  "matching_ok quiet_env (trace initial_world)
   \<and> (\<exists>dict w'. createMatchingDictionary quiet_env sample_config initial_world = (Some dict, w')
        \<and> dicts w' dict =
            Some [(''IOProviderClass'', CFString ''IOHIDUserDevice''),
                  (''VendorID'', CFNumber 1234), (''ProductID'', CFNumber 5678)])
   \<and> map_of (spec_query sample_config) ''ProductID'' = Some (CFNumber 5678)
   \<and> map_of (spec_query sample_config) ''PrimaryUsage'' = None"
proof -
  have h: "matching_ok quiet_env (trace initial_world)" by (simp add: quiet_env_def)
  have q: "spec_query sample_config =
      [(''IOProviderClass'', CFString ''IOHIDUserDevice''),
       (''VendorID'', CFNumber 1234), (''ProductID'', CFNumber 5678)]"
    by (simp add: spec_query_def spec_constraints_def sample_config_def zero_config_def)
  have v: "productID sample_config = 5678" "usage sample_config = 0"
    by (simp_all add: sample_config_def zero_config_def)
  note t = createMatchingDictionary_constraints [OF h, of sample_config]
  from t obtain dict w' where
    "createMatchingDictionary quiet_env sample_config initial_world = (Some dict, w')"
    "dicts w' dict = Some (spec_query sample_config)"
    "map_of (spec_query sample_config) ''ProductID'' =
           (if productID sample_config > 0 then Some (CFNumber (productID sample_config)) else None)"
    "map_of (spec_query sample_config) ''PrimaryUsage'' =
           (if usage sample_config > 0 then Some (CFNumber (usage sample_config)) else None)"
    by (elim exE conjE) (rule that, assumption+)
  with h show ?thesis unfolding q v by simp
qed

lemma createMatchingDictionary_Some:
  assumes "createMatchingDictionary e config w = (Some r, w')"
  shows "matching_ok e (trace w)"
  using assms createMatchingDictionary_failed [of e w config] by (cases "matching_ok e (trace w)") simp_all

text \<open>
  C8. Two calls of \<^verbatim>\<open>createMatchingDictionary\<close> on the same configuration, the second
  one in any later world, return two different objects with the same entries, and the
  second call leaves every other object as it was (also when the first dictionary has
  been consumed in between, as \<^verbatim>\<open>main\<close> does).
\<close>

theorem createMatchingDictionary_twice:
  assumes "createMatchingDictionary e config w = (Some r1, w1)"
      and "next_ref w1 \<le> next_ref w1'"
      and "createMatchingDictionary e config w1' = (Some r2, w2)"
  shows "r1 \<noteq> r2
       \<and> dicts w1 r1 = Some (spec_query config)
       \<and> dicts w2 r2 = Some (spec_query config)
       \<and> (\<forall>r. r \<noteq> r2 \<longrightarrow> dicts w2 r = dicts w1' r)"
proof -
  from createMatchingDictionary_ok [OF createMatchingDictionary_Some [OF assms(1)], of config]
    assms(1)
  have r1: "r1 = next_ref w"
    and w1: "w1 = w\<lparr>trace := trace w @ [ServiceMatching ''IOHIDUserDevice'' (Some (next_ref w))],
        dicts := (dicts w)(next_ref w \<mapsto> spec_query config),
        next_ref := next_ref w + 1\<rparr>"
    by simp_all
  from createMatchingDictionary_ok [OF createMatchingDictionary_Some [OF assms(3)], of config]
    assms(3)
  have r2: "r2 = next_ref w1'"
    and w2: "w2 = w1'\<lparr>trace := trace w1' @ [ServiceMatching ''IOHIDUserDevice'' (Some (next_ref w1'))],
        dicts := (dicts w1')(next_ref w1' \<mapsto> spec_query config),
        next_ref := next_ref w1' + 1\<rparr>"
    by simp_all
  have n1: "next_ref w1 = next_ref w + 1" by (simp add: w1)
  have d1: "dicts w1 r1 = Some (spec_query config)" by (simp add: w1 r1)
  have d2: "dicts w2 r2 = Some (spec_query config)" by (simp add: w2 r2)
  have o: "\<forall>r. r \<noteq> r2 \<longrightarrow> dicts w2 r = dicts w1' r" by (simp add: w2 r2)
  from r1 n1 r2 assms(2) have "r1 \<noteq> r2" by simp
  with d1 d2 o show ?thesis by blast
qed

theorem createMatchingDictionary_twice_witness:
  "(\<exists>w1 w2. createMatchingDictionary quiet_env sample_config initial_world = (Some 1, w1)
       \<and> createMatchingDictionary quiet_env sample_config (w1\<lparr>dicts := (dicts w1)(1 := None)\<rparr>)
           = (Some 2, w2)
       \<and> dicts w1 1 = Some (spec_query sample_config)
       \<and> dicts w2 2 = Some (spec_query sample_config)
       \<and> dicts w2 1 = None)"
proof -
  have k: "\<And>t. matching_ok quiet_env t" by (simp add: quiet_env_def)
  define w1 where "w1 = snd (createMatchingDictionary quiet_env sample_config initial_world)"
  define w1' where "w1' = w1\<lparr>dicts := (dicts w1)(1 := None)\<rparr>"
  define w2 where "w2 = snd (createMatchingDictionary quiet_env sample_config w1')"
  have a: "createMatchingDictionary quiet_env sample_config initial_world = (Some 1, w1)"
    by (simp add: w1_def createMatchingDictionary_ok [OF k] initial_world_def)
  have n: "next_ref w1 = 2"
    by (simp add: w1_def createMatchingDictionary_ok [OF k] initial_world_def)
  have n': "next_ref w1 \<le> next_ref w1'" by (simp add: w1'_def)
  have b: "createMatchingDictionary quiet_env sample_config w1' = (Some 2, w2)"
    by (simp add: w2_def createMatchingDictionary_ok [OF k] w1'_def n)
  have g: "dicts w1' 1 = None" by (simp add: w1'_def)
  note t = createMatchingDictionary_twice [OF a n' b]
  have d1: "dicts w1 1 = Some (spec_query sample_config)" by (rule t [THEN conjunct2, THEN conjunct1])
  have d2: "dicts w2 2 = Some (spec_query sample_config)"
    by (rule t [THEN conjunct2, THEN conjunct2, THEN conjunct1])
  have "dicts w2 1 = dicts w1' 1"
    using t [THEN conjunct2, THEN conjunct2, THEN conjunct2] by simp
  with g have d3: "dicts w2 1 = None" by simp
  show ?thesis
    apply (rule exI [of _ w1])
    apply (rule exI [of _ w2])
    apply (intro conjI)
        apply (rule a)
       apply (rule b [unfolded w1'_def])
      apply (rule d1)
     apply (rule d2)
    apply (rule d3)
    done
qed

section \<open>Parsing and validation: basic facts\<close>

lemma parse_args_pair:
  "parse_args (flag # val # rest) config w =
     (case assign flag val config of
        Some config' \<Rightarrow> parse_args rest config' w
      | None \<Rightarrow> (None, fprintf_stderr (''Error: Unknown flag '' @ flag @ ''. Use --help.\<newline>'') w))"
  unfolding assign_def parse_args.simps by (simp only: option.case if_distrib [of "case_option _ _"] cong: if_cong)

lemma assign_known: "(assign flag val config \<noteq> None) = (flag \<in> set (filter_flags @ action_flags))"
  unfolding assign_def filter_flags_def action_flags_def by simp

lemma assign_fields:
  assumes "assign flag val config = Some c"
  shows "vendorID c = (if flag = ''--vendor-id'' then strtol val else vendorID config)"
    and "productID c = (if flag = ''--product-id'' then strtol val else productID config)"
    and "usagePage c = (if flag = ''--usage-page'' then strtol val else usagePage config)"
    and "usage c = (if flag = ''--usage'' then strtol val else usage config)"
    and "productName c = (if flag = ''--name'' then Some val else productName config)"
    and "deviceAddress c = (if flag = ''--address'' then Some val else deviceAddress config)"
    and "onConnectScript c = (if flag = ''--on-connect'' then Some val else onConnectScript config)"
    and "onDisconnectScript c = (if flag = ''--on-disconnect'' then Some val else onDisconnectScript config)"
  using assms unfolding assign_def by (auto split: if_splits)

lemma parse_args_success:
  "parse_args args config w = (Some config', w') \<Longrightarrow> w' = w"
proof (induction args arbitrary: config rule: flags_of.induct)
  case (1 flag val rest)
  then show ?case
    unfolding parse_args_pair by (cases "assign flag val config") simp_all
qed simp_all

lemma parse_args_failure:
  "fst (parse_args args config w) = None \<Longrightarrow>
     \<exists>msg. snd (parse_args args config w) = fprintf_stderr msg w"
proof (induction args arbitrary: config rule: flags_of.induct)
  case (1 flag val rest)
  show ?case
  proof (cases "assign flag val config")
    case None
    show ?thesis unfolding parse_args_pair None option.case snd_conv by (rule exI) (rule refl)
  next
    case (Some c)
    with 1 show ?thesis unfolding parse_args_pair by simp
  qed
next
  case (2 flag)
  show ?case unfolding parse_args.simps snd_conv by (rule exI) (rule refl)
next
  case 3
  then show ?case by simp
qed

lemma well_formed_pair:
  "well_formed (flag # val # rest) = (flag \<in> set (filter_flags @ action_flags) \<and> well_formed rest)"
  by (auto simp: well_formed_def)

lemma parse_args_well_formed:
  "(fst (parse_args args config w) \<noteq> None) = well_formed args"
proof (induction args arbitrary: config rule: flags_of.induct)
  case (1 flag val rest)
  show ?case
  proof (cases "assign flag val config")
    case None
    then have "flag \<notin> set (filter_flags @ action_flags)"
      using assign_known [of flag val config] by simp
    with None show ?thesis unfolding parse_args_pair well_formed_pair by simp
  next
    case (Some c)
    then have k: "flag \<in> set (filter_flags @ action_flags)"
      using assign_known [of flag val config] by simp
    with Some 1 [of c] show ?thesis unfolding parse_args_pair well_formed_pair by simp
  qed
next
  case (2 flag)
  then show ?case by (simp add: well_formed_def)
next
  case 3
  then show ?case by (simp add: well_formed_def)
qed

lemma last_value_pair:
  "(case last_value k (flag # val # rest) of None \<Rightarrow> d | Some v \<Rightarrow> g v) =
     (case last_value k rest of None \<Rightarrow> (if flag = k then g val else d) | Some v \<Rightarrow> g v)"
  by (simp split: option.split)

text \<open>The configuration after parsing, from any starting configuration.\<close>

lemma parse_args_fields:
  assumes "parse_args args config w = (Some c, w')"
  shows "c =
     \<lparr>vendorID = (case last_value ''--vendor-id'' args of None \<Rightarrow> vendorID config | Some v \<Rightarrow> strtol v),
      productID = (case last_value ''--product-id'' args of None \<Rightarrow> productID config | Some v \<Rightarrow> strtol v),
      usagePage = (case last_value ''--usage-page'' args of None \<Rightarrow> usagePage config | Some v \<Rightarrow> strtol v),
      usage = (case last_value ''--usage'' args of None \<Rightarrow> usage config | Some v \<Rightarrow> strtol v),
      productName = (case last_value ''--name'' args of None \<Rightarrow> productName config | Some v \<Rightarrow> Some v),
      deviceAddress = (case last_value ''--address'' args of None \<Rightarrow> deviceAddress config | Some v \<Rightarrow> Some v),
      onConnectScript =
        (case last_value ''--on-connect'' args of None \<Rightarrow> onConnectScript config | Some v \<Rightarrow> Some v),
      onDisconnectScript =
        (case last_value ''--on-disconnect'' args of None \<Rightarrow> onDisconnectScript config | Some v \<Rightarrow> Some v)\<rparr>"
  using assms
proof (induction args arbitrary: config rule: flags_of.induct)
  case (1 flag val rest)
  from "1.prems" obtain c0 where a: "assign flag val config = Some c0"
    and p: "parse_args rest c0 w = (Some c, w')"
    unfolding parse_args_pair by (cases "assign flag val config") simp_all
  note f = assign_fields [OF a]
  show ?case
    by (subst "1.IH" [OF p]) (simp only: last_value_pair f)
next
  case (2 flag)
  then show ?case by simp
next
  case 3
  then show ?case by simp
qed

lemma parse_args_zero:
  "parse_args args zero_config w = (Some c, w') \<Longrightarrow> c = config_of_last args"
  by (drule parse_args_fields)
     (simp add: config_of_last_def last_number_def zero_config_def option.case_eq_if)

lemma parse_args_eq:
  "parse_args args zero_config w =
     (if well_formed args then (Some (config_of_last args), w)
      else (None, snd (parse_args args zero_config w)))"
proof (cases "fst (parse_args args zero_config w)")
  case None
  then have "\<not> well_formed args" using parse_args_well_formed [of args zero_config w] by simp
  with None show ?thesis by (simp add: prod_eq_iff)
next
  case (Some c)
  then have wf: "well_formed args" using parse_args_well_formed [of args zero_config w] by simp
  from Some have p: "parse_args args zero_config w = (Some c, snd (parse_args args zero_config w))"
    by (simp add: prod_eq_iff)
  from parse_args_success [OF p] parse_args_zero [OF p] p wf show ?thesis by simp
qed

lemma last_value_absent: "flag \<notin> set (flags_of args) \<Longrightarrow> last_value flag args = None"
  by (induction args rule: flags_of.induct) auto

lemma all_empty_iff:
  "(vendorID config = 0 \<and> productID config = 0 \<and> productName config = None
     \<and> deviceAddress config = None \<and> usagePage config = 0 \<and> usage config = 0) = all_empty config"
  by (auto simp: all_empty_def)

lemma main_eq:
  "main e argv w =
     (if help_request argv then (Exit 0, print_help (argv ! 0) w)
      else if \<not> well_formed (drop 1 argv)
      then (Exit 1, snd (parse_args (drop 1 argv) zero_config w))
      else if all_empty (config_of_last (drop 1 argv))
      then (Exit 1,
            fprintf_stderr ''Error: You must provide at least one filter. Use --help.\<newline>'' w)
      else if onConnectScript (config_of_last (drop 1 argv)) = None
              \<and> onDisconnectScript (config_of_last (drop 1 argv)) = None
      then (Exit 1,
            fprintf_stderr ''Error: You must provide at least one action script. Use --help.\<newline>'' w)
      else start_monitoring e (config_of_last (drop 1 argv)) w)"
proof -
  have c: "(length argv = 1 \<or> (length argv = 2 \<and> argv ! 1 = ''--help'')) = help_request argv"
    by (simp only: help_request_def)
  show ?thesis
  proof (cases "well_formed (drop 1 argv)")
    case False
    define s where "s = snd (parse_args (drop 1 argv) zero_config w)"
    have p: "parse_args (drop 1 argv) zero_config w = (None, s)"
      using False parse_args_eq [of "drop 1 argv" w] by (simp add: s_def)
    from False show ?thesis
      unfolding main_def Let_def c p prod.case option.case snd_conv
      by (simp only: if_True if_False simp_thms)
  next
    case True
    have p: "parse_args (drop 1 argv) zero_config w = (Some (config_of_last (drop 1 argv)), w)"
      using True parse_args_eq [of "drop 1 argv" w] by simp
    from True show ?thesis
      unfolding main_def Let_def c p prod.case option.case all_empty_iff
      by (simp only: if_True if_False simp_thms)
  qed
qed

lemma start_monitoring_outcome: "fst (start_monitoring e config w) = Monitoring"
  by (simp add: start_monitoring_def Let_def split: prod.split)

section \<open>The startup sequence: basic facts\<close>

lemma createMatchingDictionary_actions:
  "actions (trace (snd (createMatchingDictionary e config w))) = actions (trace w)"
proof (cases "matching_ok e (trace w)")
  case True
  then show ?thesis by (simp add: createMatchingDictionary_ok)
next
  case False
  then show ?thesis by (simp add: createMatchingDictionary_failed)
qed

lemma add_notification_trace:
  "trace (snd (IOServiceAddMatchingNotification e kind matching cb refCon w)) =
     trace w @
     [AddMatchingNotification kind (case matching of None \<Rightarrow> None | Some r \<Rightarrow> dicts w r)
        (fst (fst (IOServiceAddMatchingNotification e kind matching cb refCon w)))
        (snd (fst (IOServiceAddMatchingNotification e kind matching cb refCon w)))]"
  by (cases matching) (simp_all add: IOServiceAddMatchingNotification_def Let_def split: prod.split)

lemma add_notification_result:
  "fst (IOServiceAddMatchingNotification e kind matching cb refCon w) =
     (case (case matching of None \<Rightarrow> None | Some r \<Rightarrow> dicts w r) of
        None \<Rightarrow> (kIOReturnBadArgument, uninitialized e (trace w))
      | Some d \<Rightarrow> add_notification e (trace w) kind d)"
  by (simp add: IOServiceAddMatchingNotification_def Let_def split: prod.split option.split)

text \<open>The startup sequence, with its intermediate worlds named.\<close>

lemma start_monitoring_actions:
  "\<exists>d1 kr1 it1 d2 kr2 it2.
     actions (trace (snd (start_monitoring e config w))) =
       actions (trace w)
       @ [AddMatchingNotification kIOMatchedNotification d1 kr1 it1]
       @ concat (map (handled (onConnectScript config)) (yielded it1))
       @ [AddMatchingNotification kIOTerminatedNotification d2 kr2 it2]
       @ concat (map (handled (onDisconnectScript config)) (yielded it2))"
proof -
  define w2 where "w2 = emit RunLoopAddSource (emit NotificationPortCreate
    (printf ''DAEMON: Starting up...\<newline>'' w))"
  define c1 where "c1 = createMatchingDictionary e config w2"
  define n1 where "n1 = IOServiceAddMatchingNotification e kIOMatchedNotification (fst c1)
    DeviceConnected config (snd c1)"
  define w5 where "w5 = deviceConnected e config (snd (fst n1)) (snd n1)"
  define c2 where "c2 = createMatchingDictionary e config w5"
  define n2 where "n2 = IOServiceAddMatchingNotification e kIOTerminatedNotification (fst c2)
    DeviceDisconnected config (snd c2)"
  define w8 where "w8 = deviceDisconnected e config (snd (fst n2)) (snd n2)"
  have s: "start_monitoring e config w =
      (Monitoring, printf ''DAEMON: Monitoring started.\<newline>'' w8)"
    unfolding start_monitoring_def Let_def case_prod_beta w8_def n2_def c2_def w5_def n1_def
      c1_def w2_def ..
  have a2: "actions (trace w2) = actions (trace w)"
    by (simp add: w2_def printf_def)
  have a3: "actions (trace (snd c1)) = actions (trace w)"
    unfolding c1_def createMatchingDictionary_actions a2 ..
  obtain d1 where a4: "actions (trace (snd n1)) =
      actions (trace w) @ [AddMatchingNotification kIOMatchedNotification d1 (fst (fst n1)) (snd (fst n1))]"
    unfolding n1_def add_notification_trace by (simp add: a3)
  have a5: "actions (trace w5) = actions (trace w)
       @ [AddMatchingNotification kIOMatchedNotification d1 (fst (fst n1)) (snd (fst n1))]
       @ concat (map (handled (onConnectScript config)) (yielded (snd (fst n1))))"
    unfolding w5_def deviceConnected_actions a4 by simp
  have a6: "actions (trace (snd c2)) = actions (trace w5)"
    unfolding c2_def createMatchingDictionary_actions ..
  obtain d2 where a7: "actions (trace (snd n2)) =
      actions (trace w5) @ [AddMatchingNotification kIOTerminatedNotification d2 (fst (fst n2)) (snd (fst n2))]"
    unfolding n2_def add_notification_trace by (simp add: a6)
  have a8: "actions (trace w8) = actions (trace w5)
       @ [AddMatchingNotification kIOTerminatedNotification d2 (fst (fst n2)) (snd (fst n2))]
       @ concat (map (handled (onDisconnectScript config)) (yielded (snd (fst n2))))"
    unfolding w8_def deviceDisconnected_actions a7 by simp
  have "actions (trace (snd (start_monitoring e config w))) =
       actions (trace w)
       @ [AddMatchingNotification kIOMatchedNotification d1 (fst (fst n1)) (snd (fst n1))]
       @ concat (map (handled (onConnectScript config)) (yielded (snd (fst n1))))
       @ [AddMatchingNotification kIOTerminatedNotification d2 (fst (fst n2)) (snd (fst n2))]
       @ concat (map (handled (onDisconnectScript config)) (yielded (snd (fst n2))))"
    unfolding s snd_conv by (simp add: printf_def a8 a5)
  then show ?thesis by (intro exI)
qed

section \<open>Repeated flags\<close>

lemma parse_args_ok:
  "well_formed args \<Longrightarrow> parse_args args zero_config w = (Some (config_of_last args), w)"
  by (subst parse_args_eq) simp

lemma parse_args_bad: "\<not> well_formed args \<Longrightarrow> fst (parse_args args zero_config w) = None"
  by (subst parse_args_eq) simp

text \<open>
  C10. The arguments after the program name are read in flag/value pairs. When every
  flag is known and has its value, parsing gives the configuration built from the
  value after the last occurrence of each flag (a number through \<^verbatim>\<open>strtol\<close>, 0 or NULL
  for a flag that does not occur) and writes nothing; otherwise it fails. Two command
  lines with the same last values make \<^verbatim>\<open>main\<close> behave the same, so earlier values of a
  repeated flag have no effect.
\<close>

theorem last_occurrence_wins:
  "(well_formed args \<longrightarrow> parse_args args zero_config w = (Some (config_of_last args), w))
   \<and> (\<not> well_formed args \<longrightarrow> fst (parse_args args zero_config w) = None)
   \<and> (well_formed args \<and> well_formed args' \<and> args \<noteq> [] \<and> args' \<noteq> []
        \<and> config_of_last args = config_of_last args' \<longrightarrow>
        main e (prog # args) w = main e (prog' # args') w)"
proof -
  have a: "well_formed args \<longrightarrow> parse_args args zero_config w = (Some (config_of_last args), w)"
    by (simp add: parse_args_ok)
  have b: "\<not> well_formed args \<longrightarrow> fst (parse_args args zero_config w) = None"
    by (simp add: parse_args_bad)
  have h: "\<not> help_request (p # xs)" if "well_formed xs" "xs \<noteq> []" for p xs
  proof -
    from that have "even (length xs)" "length xs \<noteq> 0" by (simp_all add: well_formed_def)
    then have "length xs \<noteq> 1" by auto
    with \<open>length xs \<noteq> 0\<close> show ?thesis by (simp add: help_request_def)
  qed
  have c: "main e (prog # args) w = main e (prog' # args') w"
    if "well_formed args" "well_formed args'" "args \<noteq> []" "args' \<noteq> []"
      "config_of_last args = config_of_last args'"
    using that h [of args prog] h [of args' prog']
    by (simp add: main_eq)
  from a b c show ?thesis by blast
qed

lemma strtol_samples:
  "strtol ''12'' = 12" "strtol ''34'' = 34" "strtol ''-5'' = - 5" "strtol ''1234'' = 1234"
  "strtol ''5678'' = 5678" "strtol ''abc'' = 0" "strtol '' +7x'' = 7"
  "strtol ''99999999999999999999'' = 9223372036854775807"
  by (simp_all add: strtol_def isspace_def isdigit_def LONG_MAX_def LONG_MIN_def)

theorem last_occurrence_wins_witness:
  "well_formed repeated_args
   \<and> parse_args repeated_args zero_config initial_world =
       (Some (zero_config\<lparr>vendorID := 34, productName := Some ''Second'',
                onConnectScript := Some ''/tmp/b.sh''\<rparr>), initial_world)"
proof -
  have wf: "well_formed repeated_args"
    by (simp add: repeated_args_def well_formed_def filter_flags_def action_flags_def)
  have c: "config_of_last repeated_args =
      zero_config\<lparr>vendorID := 34, productName := Some ''Second'',
                onConnectScript := Some ''/tmp/b.sh''\<rparr>"
    by (simp add: repeated_args_def config_of_last_def last_number_def zero_config_def
        strtol_samples)
  from last_occurrence_wins [of repeated_args initial_world] wf
  have "parse_args repeated_args zero_config initial_world =
      (Some (config_of_last repeated_args), initial_world)"
    by (simp only: simp_thms)
  with wf show ?thesis unfolding c by simp
qed

section \<open>The startup sequence with and without a dictionary\<close>

lemma register_ok:
  assumes "matching_ok e (trace w)"
  shows "fst (IOServiceAddMatchingNotification e kind (fst (createMatchingDictionary e config w))
                  cb refCon (snd (createMatchingDictionary e config w)))
            = add_notification e (trace w @ [ServiceMatching ''IOHIDUserDevice'' (Some (next_ref w))])
                kind (spec_query config)"
    and "actions (trace (snd (IOServiceAddMatchingNotification e kind
            (fst (createMatchingDictionary e config w)) cb refCon
            (snd (createMatchingDictionary e config w))))) =
         actions (trace w) @
         [AddMatchingNotification kind (Some (spec_query config))
           (fst (fst (IOServiceAddMatchingNotification e kind
              (fst (createMatchingDictionary e config w)) cb refCon
              (snd (createMatchingDictionary e config w)))))
           (snd (fst (IOServiceAddMatchingNotification e kind
              (fst (createMatchingDictionary e config w)) cb refCon
              (snd (createMatchingDictionary e config w)))))]"
proof -
  note c = createMatchingDictionary_ok [OF assms, of config]
  show "fst (IOServiceAddMatchingNotification e kind (fst (createMatchingDictionary e config w))
                  cb refCon (snd (createMatchingDictionary e config w)))
            = add_notification e (trace w @ [ServiceMatching ''IOHIDUserDevice'' (Some (next_ref w))])
                kind (spec_query config)"
    unfolding add_notification_result c fst_conv snd_conv by simp
  show "actions (trace (snd (IOServiceAddMatchingNotification e kind
            (fst (createMatchingDictionary e config w)) cb refCon
            (snd (createMatchingDictionary e config w))))) =
         actions (trace w) @
         [AddMatchingNotification kind (Some (spec_query config))
           (fst (fst (IOServiceAddMatchingNotification e kind
              (fst (createMatchingDictionary e config w)) cb refCon
              (snd (createMatchingDictionary e config w)))))
           (snd (fst (IOServiceAddMatchingNotification e kind
              (fst (createMatchingDictionary e config w)) cb refCon
              (snd (createMatchingDictionary e config w)))))]"
    unfolding add_notification_trace unfolding c fst_conv snd_conv by simp
qed

lemma start_monitoring_ok:
  assumes "\<And>t. matching_ok e t"
  shows "\<exists>t1 t2.
     actions (trace (snd (start_monitoring e config w))) =
       actions (trace w)
       @ [AddMatchingNotification kIOMatchedNotification (Some (spec_query config))
            (fst (add_notification e t1 kIOMatchedNotification (spec_query config)))
            (snd (add_notification e t1 kIOMatchedNotification (spec_query config)))]
       @ concat (map (handled (onConnectScript config))
            (yielded (snd (add_notification e t1 kIOMatchedNotification (spec_query config)))))
       @ [AddMatchingNotification kIOTerminatedNotification (Some (spec_query config))
            (fst (add_notification e t2 kIOTerminatedNotification (spec_query config)))
            (snd (add_notification e t2 kIOTerminatedNotification (spec_query config)))]
       @ concat (map (handled (onDisconnectScript config))
            (yielded (snd (add_notification e t2 kIOTerminatedNotification (spec_query config)))))"
proof -
  define w2 where "w2 = emit RunLoopAddSource (emit NotificationPortCreate
    (printf ''DAEMON: Starting up...\<newline>'' w))"
  define c1 where "c1 = createMatchingDictionary e config w2"
  define n1 where "n1 = IOServiceAddMatchingNotification e kIOMatchedNotification (fst c1)
    DeviceConnected config (snd c1)"
  define w5 where "w5 = deviceConnected e config (snd (fst n1)) (snd n1)"
  define c2 where "c2 = createMatchingDictionary e config w5"
  define n2 where "n2 = IOServiceAddMatchingNotification e kIOTerminatedNotification (fst c2)
    DeviceDisconnected config (snd c2)"
  define w8 where "w8 = deviceDisconnected e config (snd (fst n2)) (snd n2)"
  define t1 where "t1 = trace w2 @ [ServiceMatching ''IOHIDUserDevice'' (Some (next_ref w2))]"
  define t2 where "t2 = trace w5 @ [ServiceMatching ''IOHIDUserDevice'' (Some (next_ref w5))]"
  define r1 where "r1 = add_notification e t1 kIOMatchedNotification (spec_query config)"
  define r2 where "r2 = add_notification e t2 kIOTerminatedNotification (spec_query config)"
  have s: "start_monitoring e config w =
      (Monitoring, printf ''DAEMON: Monitoring started.\<newline>'' w8)"
    unfolding start_monitoring_def Let_def case_prod_beta w8_def n2_def c2_def w5_def n1_def
      c1_def w2_def ..
  have a2: "actions (trace w2) = actions (trace w)"
    by (simp add: w2_def printf_def)
  have f1: "fst n1 = r1"
    unfolding n1_def c1_def r1_def t1_def by (rule register_ok(1)) (rule assms)
  have a4: "actions (trace (snd n1)) =
      actions (trace w) @
      [AddMatchingNotification kIOMatchedNotification (Some (spec_query config)) (fst r1) (snd r1)]"
    unfolding f1 [symmetric] a2 [symmetric] n1_def c1_def by (rule register_ok(2)) (rule assms)
  have a5: "actions (trace w5) = actions (trace w)
       @ [AddMatchingNotification kIOMatchedNotification (Some (spec_query config)) (fst r1) (snd r1)]
       @ concat (map (handled (onConnectScript config)) (yielded (snd r1)))"
    unfolding w5_def deviceConnected_actions a4 f1 by simp
  have f2: "fst n2 = r2"
    unfolding n2_def c2_def r2_def t2_def by (rule register_ok(1)) (rule assms)
  have a7: "actions (trace (snd n2)) =
      actions (trace w5) @
      [AddMatchingNotification kIOTerminatedNotification (Some (spec_query config)) (fst r2) (snd r2)]"
    unfolding f2 [symmetric] n2_def c2_def by (rule register_ok(2)) (rule assms)
  have a8: "actions (trace w8) = actions (trace w5)
       @ [AddMatchingNotification kIOTerminatedNotification (Some (spec_query config)) (fst r2) (snd r2)]
       @ concat (map (handled (onDisconnectScript config)) (yielded (snd r2)))"
    unfolding w8_def deviceDisconnected_actions a7 f2 by simp
  have "actions (trace (snd (start_monitoring e config w))) =
       actions (trace w)
       @ [AddMatchingNotification kIOMatchedNotification (Some (spec_query config)) (fst r1) (snd r1)]
       @ concat (map (handled (onConnectScript config)) (yielded (snd r1)))
       @ [AddMatchingNotification kIOTerminatedNotification (Some (spec_query config)) (fst r2) (snd r2)]
       @ concat (map (handled (onDisconnectScript config)) (yielded (snd r2)))"
    unfolding s snd_conv by (simp add: printf_def a8 a5)
  then show ?thesis unfolding r1_def r2_def by (intro exI)
qed

section \<open>Rejected command lines\<close>

lemma sample_argv_facts:
  "\<not> help_request sample_argv"
  "well_formed (drop 1 sample_argv)"
  "config_of_last (drop 1 sample_argv) = sample_config"
  by (simp_all add: sample_argv_def help_request_def well_formed_def filter_flags_def
      action_flags_def config_of_last_def last_number_def sample_config_def zero_config_def
      strtol_samples)

lemma negative_argv_facts:
  "\<not> help_request negative_argv"
  "well_formed (drop 1 negative_argv)"
  "config_of_last (drop 1 negative_argv) = negative_config"
  by (simp_all add: negative_argv_def help_request_def well_formed_def filter_flags_def
      action_flags_def config_of_last_def last_number_def negative_config_def zero_config_def
      strtol_samples)

lemma sample_config_facts:
  "\<not> all_empty sample_config"
  "\<not> (onConnectScript sample_config = None \<and> onDisconnectScript sample_config = None)"
  by (simp_all add: all_empty_def sample_config_def zero_config_def)

lemma negative_config_facts:
  "\<not> all_empty negative_config"
  "\<not> (onConnectScript negative_config = None \<and> onDisconnectScript negative_config = None)"
  by (simp_all add: all_empty_def negative_config_def zero_config_def)

lemma main_sample: "main e sample_argv w = start_monitoring e sample_config w"
  by (simp only: main_eq sample_argv_facts sample_config_facts if_True if_False simp_thms)

lemma main_negative: "main e negative_argv w = start_monitoring e negative_config w"
  by (simp only: main_eq negative_argv_facts negative_config_facts if_True if_False simp_thms)

lemma no_filter_all_empty:
  assumes "no_filter_given args"
  shows "all_empty (config_of_last args)"
proof -
  have "flag \<notin> set (flags_of args)" if "flag \<in> set filter_flags" for flag
    using assms that unfolding no_filter_given_def list_all_iff by blast
  then have "last_value flag args = None" if "flag \<in> set filter_flags" for flag
    using that by (simp add: last_value_absent)
  then have "last_value ''--vendor-id'' args = None" "last_value ''--product-id'' args = None"
    "last_value ''--usage-page'' args = None" "last_value ''--usage'' args = None"
    "last_value ''--name'' args = None" "last_value ''--address'' args = None"
    by (simp_all add: filter_flags_def)
  then show ?thesis by (simp add: all_empty_def config_of_last_def last_number_def)
qed

lemma no_action_no_script:
  assumes "no_action_given args"
  shows "onConnectScript (config_of_last args) = None \<and> onDisconnectScript (config_of_last args) = None"
proof -
  have "flag \<notin> set (flags_of args)" if "flag \<in> set action_flags" for flag
    using assms that unfolding no_action_given_def list_all_iff by blast
  then have "last_value flag args = None" if "flag \<in> set action_flags" for flag
    using that by (simp add: last_value_absent)
  then have "last_value ''--on-connect'' args = None" "last_value ''--on-disconnect'' args = None"
    by (simp_all add: action_flags_def)
  then show ?thesis by (simp add: config_of_last_def)
qed

text \<open>
  C6, as amended. Unless the command line is a help request (no argument at all, or
  the single argument \<^verbatim>\<open>--help\<close>), each of the following makes \<^verbatim>\<open>main\<close> write one line to
  standard error and return 1, with nothing else done (no query is built, no
  subscription is attempted, the loop is not entered): a malformed flag, no filter
  flag, no action flag, or a configuration in which every numeric filter is 0 and both
  string filters are NULL. A help request prints the help text and returns 0.
\<close>

theorem config_error_rejected:
  "(\<not> help_request argv
     \<and> (\<not> well_formed (drop 1 argv) \<or> no_filter_given (drop 1 argv)
          \<or> no_action_given (drop 1 argv) \<or> all_empty (config_of_last (drop 1 argv)))
     \<longrightarrow> (\<exists>msg. main e argv w = (Exit 1, fprintf_stderr msg w)))
   \<and> (help_request argv \<longrightarrow> main e argv w = (Exit 0, print_help (argv ! 0) w))"
proof (intro conjI impI)
  assume "help_request argv"
  then show "main e argv w = (Exit 0, print_help (argv ! 0) w)" by (simp add: main_eq)
next
  assume a: "\<not> help_request argv
     \<and> (\<not> well_formed (drop 1 argv) \<or> no_filter_given (drop 1 argv)
          \<or> no_action_given (drop 1 argv) \<or> all_empty (config_of_last (drop 1 argv)))"
  then have h: "\<not> help_request argv" ..
  show "\<exists>msg. main e argv w = (Exit 1, fprintf_stderr msg w)"
  proof (cases "well_formed (drop 1 argv)")
    case False
    from parse_args_failure [OF parse_args_bad [OF False], of w]
    obtain msg where "snd (parse_args (drop 1 argv) zero_config w) = fprintf_stderr msg w" ..
    with h False have "main e argv w = (Exit 1, fprintf_stderr msg w)" by (simp add: main_eq)
    then show ?thesis ..
  next
    case True
    note wf = this
    show ?thesis
    proof (cases "all_empty (config_of_last (drop 1 argv))")
      case True
      with h wf have "main e argv w = (Exit 1,
          fprintf_stderr ''Error: You must provide at least one filter. Use --help.\<newline>'' w)"
        by (simp only: main_eq if_True if_False simp_thms)
      then show ?thesis ..
    next
      case False
      with a wf have "no_action_given (drop 1 argv)"
        using no_filter_all_empty [of "drop 1 argv"] by blast
      from no_action_no_script [OF this] h wf False
      have "main e argv w = (Exit 1,
          fprintf_stderr ''Error: You must provide at least one action script. Use --help.\<newline>'' w)"
        by (simp only: main_eq if_True if_False simp_thms)
      then show ?thesis ..
    qed
  qed
qed

theorem config_error_rejected_witness:
  "\<not> help_request [''hidkitd'', ''--on-connect'', ''/tmp/c.sh'']
   \<and> no_filter_given (drop 1 [''hidkitd'', ''--on-connect'', ''/tmp/c.sh''])
   \<and> (\<exists>msg. main quiet_env [''hidkitd'', ''--on-connect'', ''/tmp/c.sh''] initial_world
         = (Exit 1, fprintf_stderr msg initial_world))
   \<and> help_request [''hidkitd'', ''--help'']
   \<and> main quiet_env [''hidkitd'', ''--help''] initial_world
       = (Exit 0, print_help ''hidkitd'' initial_world)"
proof -
  have h: "\<not> help_request [''hidkitd'', ''--on-connect'', ''/tmp/c.sh'']"
    by (simp add: help_request_def)
  have n: "no_filter_given (drop 1 [''hidkitd'', ''--on-connect'', ''/tmp/c.sh''])"
    by (simp add: no_filter_given_def filter_flags_def)
  have g: "help_request [''hidkitd'', ''--help'']" by (simp add: help_request_def)
  from config_error_rejected [of "[''hidkitd'', ''--on-connect'', ''/tmp/c.sh'']" quiet_env initial_world]
    h n
  have a: "\<exists>msg. main quiet_env [''hidkitd'', ''--on-connect'', ''/tmp/c.sh''] initial_world
         = (Exit 1, fprintf_stderr msg initial_world)"
    by (simp only: simp_thms)
  from config_error_rejected [of "[''hidkitd'', ''--help'']" quiet_env initial_world] g
  have b: "main quiet_env [''hidkitd'', ''--help''] initial_world
       = (Exit 0, print_help ([''hidkitd'', ''--help''] ! 0) initial_world)"
    by (simp only: simp_thms)
  from h n a g b show ?thesis by simp
qed

text \<open>
  C6 as stated fails for the command line without arguments: no filter and no action
  are given, and the exit status is 0.
\<close>

theorem bare_invocation_counterexample:
  "no_filter_given (drop 1 [''hidkitd'']) \<and> no_action_given (drop 1 [''hidkitd''])
   \<and> fst (main quiet_env [''hidkitd''] initial_world) = Exit 0"
  by (simp add: main_eq help_request_def no_filter_given_def no_action_given_def)

section \<open>Startup errors\<close>





lemma sample_spec_query:
  "spec_query sample_config =
     [(''IOProviderClass'', CFString ''IOHIDUserDevice''),
      (''VendorID'', CFNumber 1234), (''ProductID'', CFNumber 5678)]"
  "spec_query negative_config = [(''IOProviderClass'', CFString ''IOHIDUserDevice'')]"
  by (simp_all add: spec_query_def spec_constraints_def sample_config_def negative_config_def
      zero_config_def)

lemma sample_scripts:
  "onConnectScript sample_config = Some ''/tmp/c.sh''"
  "onDisconnectScript sample_config = None"
  "onConnectScript negative_config = Some ''/tmp/c.sh''"
  "onDisconnectScript negative_config = None"
  by (simp_all add: sample_config_def negative_config_def zero_config_def)

lemma initial_actions: "actions (trace initial_world) = []"
  by (simp add: initial_world_def)



section \<open>Catch-up at startup\<close>

text \<open>
  C4. When \<^verbatim>\<open>main\<close> reaches the run loop, what it has registered, launched and released
  is, in this order: the registration for arrivals; for each object its iterator
  yields, one launch of the connect script (if configured) and one release; the
  registration for removals; for each object its iterator yields, one launch of the
  disconnect script (if configured) and one release.
\<close>

theorem startup_catch_up:
  assumes "main e argv w = (Monitoring, w')"
  shows "\<exists>config d1 kr1 it1 d2 kr2 it2.
     parse_args (drop 1 argv) zero_config w = (Some config, w)
     \<and> actions (trace w') =
         actions (trace w)
         @ [AddMatchingNotification kIOMatchedNotification d1 kr1 it1]
         @ concat (map (handled (onConnectScript config)) (yielded it1))
         @ [AddMatchingNotification kIOTerminatedNotification d2 kr2 it2]
         @ concat (map (handled (onDisconnectScript config)) (yielded it2))"
proof -
  define config where "config = config_of_last (drop 1 argv)"
  have h: "\<not> help_request argv"
  proof
    assume "help_request argv"
    then have "fst (main e argv w) = Exit 0" by (simp add: main_eq)
    with assms show False by simp
  qed
  have wf: "well_formed (drop 1 argv)"
  proof (rule ccontr)
    assume "\<not> well_formed (drop 1 argv)"
    with h have "fst (main e argv w) = Exit 1" by (simp add: main_eq)
    with assms show False by simp
  qed
  have ne: "\<not> all_empty config"
  proof
    assume "all_empty config"
    with h wf have "fst (main e argv w) = Exit 1" by (simp add: main_eq config_def)
    with assms show False by simp
  qed
  have sc: "\<not> (onConnectScript config = None \<and> onDisconnectScript config = None)"
  proof
    assume "onConnectScript config = None \<and> onDisconnectScript config = None"
    with h wf ne have "fst (main e argv w) = Exit 1" by (simp add: main_eq config_def)
    with assms show False by simp
  qed
  from h wf ne sc have "main e argv w = start_monitoring e config w"
    unfolding config_def by (simp only: main_eq if_True if_False simp_thms)
  with assms have w': "w' = snd (start_monitoring e config w)" by simp
  have p: "parse_args (drop 1 argv) zero_config w = (Some config, w)"
    unfolding config_def using wf by (rule parse_args_ok)
  have eq: "snd (start_monitoring e config w) = w'" by (simp add: w')
  from start_monitoring_actions [of e config w, unfolded eq] obtain d1 kr1 it1 d2 kr2 it2 where
    "actions (trace w') =
         actions (trace w)
         @ [AddMatchingNotification kIOMatchedNotification d1 kr1 it1]
         @ concat (map (handled (onConnectScript config)) (yielded it1))
         @ [AddMatchingNotification kIOTerminatedNotification d2 kr2 it2]
         @ concat (map (handled (onDisconnectScript config)) (yielded it2))"
    by (elim exE) (rule that, assumption)
  with p show ?thesis by (intro exI conjI)
qed

theorem startup_catch_up_witness:
  "main busy_env sample_argv initial_world = (Monitoring, snd (main busy_env sample_argv initial_world))
   \<and> (\<exists>config d1 kr1 it1 d2 kr2 it2.
        parse_args (drop 1 sample_argv) zero_config initial_world = (Some config, initial_world)
        \<and> actions (trace (snd (main busy_env sample_argv initial_world))) =
            actions (trace initial_world)
            @ [AddMatchingNotification kIOMatchedNotification d1 kr1 it1]
            @ concat (map (handled (onConnectScript config)) (yielded it1))
            @ [AddMatchingNotification kIOTerminatedNotification d2 kr2 it2]
            @ concat (map (handled (onDisconnectScript config)) (yielded it2)))
   \<and> actions (trace (snd (main busy_env sample_argv initial_world))) =
       [AddMatchingNotification kIOMatchedNotification (Some (spec_query sample_config))
          KERN_SUCCESS [7, 9],
        System ([CHR 0x22] @ ''/tmp/c.sh'' @ [CHR 0x22]), ObjectRelease 7,
        System ([CHR 0x22] @ ''/tmp/c.sh'' @ [CHR 0x22]), ObjectRelease 9,
        AddMatchingNotification kIOTerminatedNotification (Some (spec_query sample_config))
          KERN_SUCCESS []]"
proof -
  have m: "main busy_env sample_argv initial_world =
      (Monitoring, snd (main busy_env sample_argv initial_world))"
    by (simp add: main_sample prod_eq_iff start_monitoring_outcome)
  have k: "\<And>t. matching_ok busy_env t" by (simp add: busy_env_def)
  from start_monitoring_ok [of busy_env sample_config initial_world, OF k]
  have a: "actions (trace (snd (main busy_env sample_argv initial_world))) =
       [AddMatchingNotification kIOMatchedNotification (Some (spec_query sample_config))
          KERN_SUCCESS [7, 9],
        System ([CHR 0x22] @ ''/tmp/c.sh'' @ [CHR 0x22]), ObjectRelease 7,
        System ([CHR 0x22] @ ''/tmp/c.sh'' @ [CHR 0x22]), ObjectRelease 9,
        AddMatchingNotification kIOTerminatedNotification (Some (spec_query sample_config))
          KERN_SUCCESS []]"
    unfolding main_sample
    by (auto simp: busy_env_def initial_actions yielded_def handled_def sample_scripts
        snprintf_quoted_2048)
  from startup_catch_up [OF m] m a show ?thesis by (intro conjI)
qed

section \<open>Non-positive filter values\<close>

text \<open>
  C7 fails on the code. The command line \<^verbatim>\<open>--vendor-id -5 --on-connect /tmp/c.sh\<close> passes
  the validation, which compares with 0, and the vendor id -5 is then left out by
  \<^verbatim>\<open>createMatchingDictionary\<close>, which asks for a positive value: both subscriptions are
  registered with the provider class as their only constraint.
\<close>

theorem negative_filter_accepted:
  "parse_args (drop 1 negative_argv) zero_config initial_world = (Some negative_config, initial_world)
   \<and> vendorID negative_config = - 5
   \<and> fst (main quiet_env negative_argv initial_world) = Monitoring
   \<and> actions (trace (snd (main quiet_env negative_argv initial_world))) =
       [AddMatchingNotification kIOMatchedNotification
          (Some [(''IOProviderClass'', CFString ''IOHIDUserDevice'')]) KERN_SUCCESS [],
        AddMatchingNotification kIOTerminatedNotification
          (Some [(''IOProviderClass'', CFString ''IOHIDUserDevice'')]) KERN_SUCCESS []]"
proof -
  have p: "parse_args (drop 1 negative_argv) zero_config initial_world =
      (Some negative_config, initial_world)"
    using parse_args_ok [OF negative_argv_facts(2), of initial_world]
    by (simp only: negative_argv_facts(3))
  have v: "vendorID negative_config = - 5" by (simp add: negative_config_def)
  have k: "\<And>t. matching_ok quiet_env t" by (simp add: quiet_env_def)
  from start_monitoring_ok [of quiet_env negative_config initial_world, OF k]
  have a: "actions (trace (snd (main quiet_env negative_argv initial_world))) =
       [AddMatchingNotification kIOMatchedNotification
          (Some [(''IOProviderClass'', CFString ''IOHIDUserDevice'')]) KERN_SUCCESS [],
        AddMatchingNotification kIOTerminatedNotification
          (Some [(''IOProviderClass'', CFString ''IOHIDUserDevice'')]) KERN_SUCCESS []]"
    unfolding main_negative sample_spec_query
    by (auto simp: quiet_env_def initial_actions yielded_def)
  from p v a show ?thesis by (simp add: main_negative start_monitoring_outcome)
qed

end
